theory Spec2Isabelle
  imports Main "HOL-Library.Sublist" "HOL-Library.Multiset"
begin

section \<open>Go library primitives used by the provider\<close>

text \<open>
  Go strings are byte sequences; they are modelled as \<open>string\<close> (a list of 8-bit
  characters). The line separator of every device dump is the newline byte.
\<close>

definition nl :: char where
  "nl = CHR 0x0A"

definition HasPrefix :: "string \<Rightarrow> string \<Rightarrow> bool" where
  "HasPrefix s p = prefix p s"

definition HasSuffix :: "string \<Rightarrow> string \<Rightarrow> bool" where
  "HasSuffix s p = suffix p s"

definition Contains :: "string \<Rightarrow> string \<Rightarrow> bool" where
  "Contains s sub = sublist sub s"

definition TrimPrefix :: "string \<Rightarrow> string \<Rightarrow> string" where
  "TrimPrefix s p = (if prefix p s then drop (length p) s else s)"

text \<open>\<open>strings.Trim(s, cutset)\<close> for a one-character cutset.\<close>

definition Trim :: "string \<Rightarrow> char \<Rightarrow> string" where
  "Trim s c = rev (dropWhile (\<lambda>x. x = c) (rev (dropWhile (\<lambda>x. x = c) s)))"

text \<open>\<open>strings.Split(s, "\n")\<close>: the empty string splits into one empty piece.\<close>

fun Split :: "string \<Rightarrow> string list" where
  "Split [] = [[]]"
| "Split (c # cs) =
     (if c = nl then [] # Split cs
      else (case Split cs of [] \<Rightarrow> [[c]] | l # ls \<Rightarrow> (c # l) # ls))"

text \<open>\<open>strings.Join(lines, "\n")\<close>.\<close>

fun Join :: "string list \<Rightarrow> string" where
  "Join [] = []"
| "Join [l] = l"
| "Join (l # m # ls) = l @ nl # Join (m # ls)"

text \<open>
  \<open>strings.Fields\<close>: the maximal runs of non-space bytes. The white space of the
  ASCII range is modelled (tab, newline, vertical tab, form feed, carriage return,
  space); the two uses in the allocator read a word that is delimited by ASCII spaces.
\<close>

definition isSpace :: "char \<Rightarrow> bool" where
  "isSpace c = (c = CHR 0x09 \<or> c = CHR 0x0A \<or> c = CHR 0x0B \<or> c = CHR 0x0C
                \<or> c = CHR 0x0D \<or> c = CHR 0x20)"

fun Fields :: "string \<Rightarrow> string list" where
  "Fields [] = []"
| "Fields (c # cs) =
     (if isSpace c then Fields cs
      else (case cs of
              [] \<Rightarrow> [[c]]
            | d # _ \<Rightarrow> if isSpace d then [c] # Fields cs
                       else (case Fields cs of [] \<Rightarrow> [[c]] | w # ws \<Rightarrow> (c # w) # ws)))"

text \<open>
  Go's \<open>int\<close> is a 64-bit two's complement integer: it is modelled as \<open>int\<close> with the
  wrap-around of an addition written out by \<open>goInt\<close>.
\<close>

definition maxInt :: int where
  "maxInt = 9223372036854775807"

definition minInt :: int where
  "minInt = - 9223372036854775808"

definition goInt :: "int \<Rightarrow> int" where
  "goInt x = (x + 9223372036854775808) mod 18446744073709551616 - 9223372036854775808"

definition isDigit :: "char \<Rightarrow> bool" where
  "isDigit c = (48 \<le> (of_char c :: nat) \<and> (of_char c :: nat) \<le> 57)"

definition digitVal :: "char \<Rightarrow> int" where
  "digitVal c = int (of_char c) - 48"

fun digitsVal :: "int \<Rightarrow> string \<Rightarrow> int" where
  "digitsVal acc [] = acc"
| "digitsVal acc (c # cs) = digitsVal (acc * 10 + digitVal c) cs"

text \<open>
  \<open>strconv.Atoi\<close>: an optional sign, then one or more decimal digits, and a value in
  the range of \<open>int\<close>; any other text is an error (\<open>None\<close>).
\<close>

definition Atoi :: "string \<Rightarrow> int option" where
  "Atoi s =
     (let neg = (case s of [] \<Rightarrow> False | c # _ \<Rightarrow> c = CHR ''-'');
          ds = (case s of [] \<Rightarrow> [] | c # r \<Rightarrow> if c = CHR ''-'' \<or> c = CHR ''+'' then r else s)
      in if ds = [] \<or> \<not> list_all isDigit ds then None
         else (let n = digitsVal 0 ds; v = (if neg then - n else n)
               in if minInt \<le> v \<and> v \<le> maxInt then Some v else None))"

text \<open>\<open>strconv.Itoa\<close>: the decimal text of an integer.\<close>

definition digitChar :: "nat \<Rightarrow> char" where
  "digitChar n = char_of (48 + n)"

fun natDigits :: "nat \<Rightarrow> string" where
  "natDigits n = (if n < 10 then [digitChar n] else natDigits (n div 10) @ [digitChar (n mod 10)])"

declare natDigits.simps [simp del]

definition Itoa :: "int \<Rightarrow> string" where
  "Itoa i = (if i < 0 then CHR ''-'' # natDigits (nat (- i)) else natDigits (nat i))"

definition sq :: char where
  "sq = CHR 0x27"

definition dq :: char where
  "dq = CHR 0x22"

section \<open>Errors, diagnostics and the device session\<close>

datatype error =
    Errorf string
  | ErrorfW string error
  | NumError string
  | DeviceError string
  | Panic string

text \<open>
  \<open>Errorf m\<close> is \<open>fmt.Errorf\<close> with the formatted message \<open>m\<close>; \<open>ErrorfW m e\<close> is
  \<open>fmt.Errorf\<close> with the message prefix \<open>m\<close> and the wrapped cause \<open>e\<close> (verb \<open>%w\<close>);
  \<open>NumError t\<close> is the error of \<open>strconv.Atoi\<close> on the text \<open>t\<close>; \<open>DeviceError\<close> is an
  error returned by a call to the device; \<open>Panic\<close> is a run-time panic.
\<close>

datatype diag = DiagError error | DiagWarning error

datatype event =
    EvStart
  | EvClose
  | EvLock
  | EvClear
  | EvCommit string
  | EvSet "string list"
  | EvCommand string
  | EvCommandXML string

text \<open>
  The state of one NETCONF session: the statements staged in the candidate
  configuration and not yet committed, the number of commits that succeeded, and the
  calls made to the device (newest first).
\<close>

record session =
  staged :: "string list"
  committed :: nat
  calls :: "event list"

text \<open>
  Modelled from the spec: the type \<open>Session\<close> with its methods (\<open>startNewSession\<close>,
  \<open>closeSession\<close>, \<open>configLock\<close>, \<open>configClear\<close>, \<open>configSet\<close>, \<open>commitConf\<close>, \<open>command\<close>,
  \<open>commandXML\<close>) and \<open>checkCompatibilitySecurity\<close> are not among the source files. The
  spec (section 6) gives them as synchronous collaborator operations, each returning a
  result or a failure: \<open>runQuery\<close>, \<open>applyStatements\<close> (stage configuration edits),
  \<open>lock\<close>, \<open>commit\<close> (with warnings) and \<open>discardPending\<close> (always Ok). A device is any
  deterministic answer to these calls, which may depend on the whole history of the
  session. A failed \<open>configSet\<close> may have staged a part of its statements.
\<close>

record device =
  junosGroupIntDel :: string
  startNewSessionResult :: "session \<Rightarrow> error option"
  configLockResult :: "session \<Rightarrow> error option"
  commandResult :: "session \<Rightarrow> string \<Rightarrow> error + string"
  commandXMLResult :: "session \<Rightarrow> string \<Rightarrow> error + string"
  configSetResult :: "session \<Rightarrow> string list \<Rightarrow> error option"
  configSetPartial :: "session \<Rightarrow> string list \<Rightarrow> nat"
  commitConfResult :: "session \<Rightarrow> string \<Rightarrow> error list \<times> error option"
  compatibilitySecurity :: bool
  platformModel :: string

definition startNewSession :: "device \<Rightarrow> session \<Rightarrow> error option \<times> session" where
  "startNewSession dev s = (startNewSessionResult dev s, s\<lparr>calls := EvStart # calls s\<rparr>)"

definition closeSession :: "device \<Rightarrow> session \<Rightarrow> session" where
  "closeSession dev s = s\<lparr>calls := EvClose # calls s\<rparr>"

definition configLock :: "device \<Rightarrow> session \<Rightarrow> error option \<times> session" where
  "configLock dev s = (configLockResult dev s, s\<lparr>calls := EvLock # calls s\<rparr>)"

definition configClear :: "device \<Rightarrow> session \<Rightarrow> session" where
  "configClear dev s = s\<lparr>staged := [], calls := EvClear # calls s\<rparr>"

definition command :: "device \<Rightarrow> string \<Rightarrow> session \<Rightarrow> (error + string) \<times> session" where
  "command dev cmd s = (commandResult dev s cmd, s\<lparr>calls := EvCommand cmd # calls s\<rparr>)"

definition commandXML :: "device \<Rightarrow> string \<Rightarrow> session \<Rightarrow> (error + string) \<times> session" where
  "commandXML dev cmd s = (commandXMLResult dev s cmd, s\<lparr>calls := EvCommandXML cmd # calls s\<rparr>)"

definition configSet :: "device \<Rightarrow> string list \<Rightarrow> session \<Rightarrow> error option \<times> session" where
  "configSet dev stmts s =
     (case configSetResult dev s stmts of
        None \<Rightarrow> (None, s\<lparr>staged := staged s @ stmts, calls := EvSet stmts # calls s\<rparr>)
      | Some err \<Rightarrow>
          (Some err, s\<lparr>staged := staged s @ take (configSetPartial dev s stmts) stmts,
                        calls := EvSet stmts # calls s\<rparr>))"

definition commitConf ::
  "device \<Rightarrow> string \<Rightarrow> session \<Rightarrow> (error list \<times> error option) \<times> session" where
  "commitConf dev logMessage s =
     (case commitConfResult dev s logMessage of
        (warns, None) \<Rightarrow>
          ((warns, None), s\<lparr>staged := [], committed := Suc (committed s),
                             calls := EvCommit logMessage # calls s\<rparr>)
      | (warns, Some err) \<Rightarrow>
          ((warns, Some err), s\<lparr>calls := EvCommit logMessage # calls s\<rparr>))"

text \<open>
  Modelled from the spec: the constants \<open>emptyWord\<close> and \<open>setLineStart\<close> are not among
  the source files. The spec calls the first the defined "empty" sentinel value of a
  configuration query, and describes every statement of a dump as a \<open>set\<close> line whose
  start is stripped before its path is matched.
\<close>

definition emptyWord :: string where
  "emptyWord = ''empty''"

definition setLineStart :: string where
  "setLineStart = ''set ''"

section \<open>Aggregated-interface allocator\<close>

text \<open>
  The two regular expressions of \<open>interfaceAggregatedCountSearchMax\<close>:
  \<open>ether-options 802\.3ad ae\d+$\<close> (a line that ends with the binding and one or more
  digits) and \<open>^set ae\d+ \<close> (a line that starts with \<open>set ae\<close>, one or more digits and a
  space).
\<close>

definition regexpAEchild :: "string \<Rightarrow> bool" where
  "regexpAEchild line =
     (takeWhile isDigit (rev line) \<noteq> [] \<and>
      prefix (rev ''ether-options 802.3ad ae'') (dropWhile isDigit (rev line)))"

definition regexpAEparent :: "string \<Rightarrow> bool" where
  "regexpAEparent line =
     (prefix ''set ae'' line \<and> takeWhile isDigit (drop 6 line) \<noteq> [] \<and>
      (case dropWhile isDigit (drop 6 line) of [] \<Rightarrow> False | c # _ \<Rightarrow> c = CHR 0x20))"

text \<open>The loop of \<open>interfaceAggregatedLastChild\<close> over the lines, with its flag.\<close>

fun lastChildLoop :: "string \<Rightarrow> string \<Rightarrow> string list \<Rightarrow> bool \<Rightarrow> bool" where
  "lastChildLoop ae interFace [] lastAE = lastAE"
| "lastChildLoop ae interFace (item # rest) lastAE =
     lastChildLoop ae interFace rest
       (if HasSuffix item (''ether-options 802.3ad '' @ ae) \<and>
           \<not> HasPrefix item (''set '' @ interFace @ '' '')
        then False else lastAE)"

definition showInterfaces :: string where
  "showInterfaces = ''show configuration interfaces | display set relative''"

definition interfaceAggregatedLastChild ::
  "device \<Rightarrow> string \<Rightarrow> string \<Rightarrow> session \<Rightarrow> (error + bool) \<times> session" where
  "interfaceAggregatedLastChild dev ae interFace s =
     (case command dev showInterfaces s of
        (Inl err, s1) \<Rightarrow> (Inl err, s1)
      | (Inr showConf, s1) \<Rightarrow> (Inr (lastChildLoop ae interFace (Split showConf) True), s1))"

text \<open>
  The scan loop of \<open>interfaceAggregatedCountSearchMax\<close>, with \<open>listAEFound\<close> as its
  accumulator. Reading a word of a line that has too few words panics.
\<close>

fun scanAE :: "string \<Rightarrow> string \<Rightarrow> string list \<Rightarrow> string list \<Rightarrow> error + string list" where
  "scanAE oldAE interFace [] listAEFound = Inr listAEFound"
| "scanAE oldAE interFace (line # rest) listAEFound =
     (if regexpAEchild line then
        (case Fields line of
           [] \<Rightarrow> Inl (Panic ''index out of range'')
         | w # ws \<Rightarrow>
             if interFace = oldAE then
               scanAE oldAE interFace rest (listAEFound @ [last (w # ws)])
             else if last (w # ws) \<noteq> oldAE then
               scanAE oldAE interFace rest (listAEFound @ [last (w # ws)])
             else scanAE oldAE interFace rest listAEFound)
      else if regexpAEparent line then
        (case Fields line of
           w0 # w1 # ws \<Rightarrow>
             if interFace \<noteq> oldAE then
               scanAE oldAE interFace rest (listAEFound @ [w1])
             else if w1 \<noteq> oldAE then
               scanAE oldAE interFace rest (listAEFound @ [w1])
             else scanAE oldAE interFace rest listAEFound
         | _ \<Rightarrow> Inl (Panic ''index out of range''))
      else scanAE oldAE interFace rest listAEFound)"

text \<open>
  The type \<open>sortStringsLength\<close>, whose \<open>Len\<close>, \<open>Less\<close> and \<open>Swap\<close> decide what
  \<open>sort.Sort\<close> does to \<open>listAEFound\<close>, is not among the source files: the sort is the
  parameter \<open>srt\<close> of the allocator and of every operation that calls it.
\<close>

text \<open>
  The end of \<open>interfaceAggregatedCountSearchMax\<close>, from the final \<open>listAEFound\<close> to
  the count: the last element of the sorted list against the requested index.
\<close>

definition aggregatedCountOf ::
  "(string list \<Rightarrow> string list) \<Rightarrow> int \<Rightarrow> string list \<Rightarrow> error + string" where
  "aggregatedCountOf srt newAENumInt listAEFound =
     (if length listAEFound > 0 then
        (case Atoi (TrimPrefix (srt listAEFound ! (length listAEFound - 1)) ''ae'') of
           None \<Rightarrow>
             Inl (ErrorfW ''failed to convert internal variable lastAeInt to integer : ''
                    (NumError (TrimPrefix (srt listAEFound ! (length listAEFound - 1)) ''ae'')))
         | Some lastAeInt \<Rightarrow>
             if lastAeInt > newAENumInt then Inr (Itoa (goInt (lastAeInt + 1)))
             else Inr (Itoa (goInt (newAENumInt + 1))))
      else Inr (Itoa (goInt (newAENumInt + 1))))"

text \<open>
  The middle of \<open>interfaceAggregatedCountSearchMax\<close>: the dump, the scan, the
  last-child check of \<open>oldAE\<close> and the final \<open>listAEFound\<close>.
\<close>

definition listAEFoundOf ::
  "device \<Rightarrow> string \<Rightarrow> string \<Rightarrow> session \<Rightarrow> (error + string list) \<times> session" where
  "listAEFoundOf dev oldAE interFace s =
     (case command dev showInterfaces s of
        (Inl err, s1) \<Rightarrow> (Inl err, s1)
      | (Inr showConf, s1) \<Rightarrow>
          (case scanAE oldAE interFace (Split showConf) [] of
             Inl err \<Rightarrow> (Inl err, s1)
           | Inr scanned \<Rightarrow>
               (case interfaceAggregatedLastChild dev oldAE interFace s1 of
                  (Inl err, s2) \<Rightarrow> (Inl err, s2)
                | (Inr lastOldAE, s2) \<Rightarrow>
                    (Inr (if \<not> lastOldAE then scanned @ [oldAE] else scanned), s2))))"

definition interfaceAggregatedCountSearchMax ::
  "device \<Rightarrow> (string list \<Rightarrow> string list) \<Rightarrow> string \<Rightarrow> string \<Rightarrow> string \<Rightarrow> session
     \<Rightarrow> (error + string) \<times> session" where
  "interfaceAggregatedCountSearchMax dev srt newAE oldAE interFace s =
     (case Atoi (TrimPrefix newAE ''ae'') of
        None \<Rightarrow>
          (Inl (ErrorfW (''failed to convert ae interaface '' @ [sq] @ newAE @ [sq] @
                         '' to integer : '') (NumError (TrimPrefix newAE ''ae''))), s)
      | Some newAENumInt \<Rightarrow>
          (case listAEFoundOf dev oldAE interFace s of
             (Inl err, s2) \<Rightarrow> (Inl err, s2)
           | (Inr listAEFound, s2) \<Rightarrow> (aggregatedCountOf srt newAENumInt listAEFound, s2)))"

section \<open>Physical interfaces\<close>

text \<open>
  One element of the \<open>esi\<close> list, a \<open>map[string]interface{}\<close> with five keys. In the
  resource data an element of a block list is either such a map or \<open>nil\<close> (\<open>None\<close>).
\<close>

record esiBlock =
  mode :: string
  auto_derive_lacp :: bool
  df_election_type :: string
  "identifier" :: string
  source_bmac :: string

record interfacePhysicalOptions =
  trunk :: bool
  vlanTagging :: bool
  aeMinLink :: int
  vlanNative :: int
  aeLacp :: string
  aeLinkSpeed :: string
  description :: string
  v8023ad :: string
  vlanMembers :: "string list"
  esi :: "esiBlock list"

text \<open>
  The resource data \<open>d\<close> of a physical interface: one field per attribute of the schema
  (\<open>d.Get\<close>), the value of \<open>ether802_3ad\<close> in the prior state (\<open>d.GetChange\<close>) and the
  resource id (\<open>d.SetId\<close>).
\<close>

record ifaceData =
  d_name :: string
  d_no_disable_on_destroy :: bool
  d_ae_lacp :: string
  d_ae_link_speed :: string
  d_ae_minimum_links :: int
  d_description :: string
  d_esi :: "esiBlock option list"
  d_ether802_3ad :: string
  d_ether802_3ad_old :: string
  d_trunk :: bool
  d_vlan_members :: "string list"
  d_vlan_native :: int
  d_vlan_tagging :: bool
  d_id :: string

definition showInterface :: "string \<Rightarrow> string" where
  "showInterface interFace =
     ''show configuration interfaces '' @ interFace @ '' | display set relative''"

text \<open>The filter loop of \<open>checkInterfacePhysicalNCEmpty\<close> (``remove unused lines'').\<close>

fun intConfigLines :: "string list \<Rightarrow> string list" where
  "intConfigLines [] = []"
| "intConfigLines (item # rest) =
     (if HasPrefix item ''set unit'' \<and> \<not> Contains item ''ethernet-switching''
      then intConfigLines rest
      else if Contains item ''<configuration-output>'' then intConfigLines rest
      else if Contains item ''</configuration-output>'' then []
      else if item = [] then intConfigLines rest
      else item # intConfigLines rest)"

text \<open>
  The rest of \<open>checkInterfacePhysicalNCEmpty\<close>, from the kept lines to the pair
  \<open>(ncInt, emtyInt)\<close>.
\<close>

definition ncEmpty :: "string \<Rightarrow> string list \<Rightarrow> bool \<times> bool" where
  "ncEmpty groupIntDel lines =
     (if length lines = 0 then (False, True)
      else if groupIntDel \<noteq> [] \<and> Join lines = ''set apply-groups '' @ groupIntDel
      then (True, False)
      else if Join lines = ''set description NC'' @ [nl] @ ''set disable'' \<or>
              Join lines = ''set disable'' @ [nl] @ ''set description NC''
      then (True, False)
      else if Join lines = emptyWord then (False, True)
      else (False, False))"

definition checkInterfacePhysicalNCEmpty ::
  "device \<Rightarrow> string \<Rightarrow> session \<Rightarrow> (error + bool \<times> bool) \<times> session" where
  "checkInterfacePhysicalNCEmpty dev interFace s =
     (case command dev (showInterface interFace) s of
        (Inl err, s1) \<Rightarrow> (Inl err, s1)
      | (Inr intConfig, s1) \<Rightarrow>
          (Inr (ncEmpty (junosGroupIntDel dev) (intConfigLines (Split intConfig))), s1))"

definition addInterfacePhysicalNC ::
  "device \<Rightarrow> string \<Rightarrow> session \<Rightarrow> error option \<times> session" where
  "addInterfacePhysicalNC dev interFace s =
     (if junosGroupIntDel dev = []
      then configSet dev [''set interfaces '' @ interFace @ '' disable description NC''] s
      else configSet dev
             [''set interfaces '' @ interFace @ '' apply-groups '' @ junosGroupIntDel dev] s)"

definition checkInterfaceExists ::
  "device \<Rightarrow> string \<Rightarrow> session \<Rightarrow> (error + bool) \<times> session" where
  "checkInterfaceExists dev interFace s =
     (case commandXML dev
             (''<get-interface-information><interface-name>'' @ interFace @
              ''</interface-name></get-interface-information>'') s of
        (Inl err, s1) \<Rightarrow> (Inl err, s1)
      | (Inr reply, s1) \<Rightarrow>
          (if Contains reply ('' not found'' @ [nl]) then (Inr False, s1) else (Inr True, s1)))"

text \<open>The statements of \<open>setIntEsi\<close>: a \<open>switch\<close> whose first true case is taken.\<close>

fun esiConfigSet :: "string \<Rightarrow> esiBlock option list \<Rightarrow> string list \<Rightarrow> string list" where
  "esiConfigSet setPrefix [] acc = acc"
| "esiConfigSet setPrefix (v # vs) acc =
     (case v of
        None \<Rightarrow> esiConfigSet setPrefix vs acc
      | Some m \<Rightarrow>
          esiConfigSet setPrefix vs
            (if mode m \<noteq> [] then acc @ [setPrefix @ ''esi '' @ mode m]
             else if auto_derive_lacp m then acc @ [setPrefix @ ''esi auto-derive lacp'']
             else if df_election_type m \<noteq> []
             then acc @ [setPrefix @ ''esi df-election-type '' @ df_election_type m]
             else if identifier m \<noteq> [] then acc @ [setPrefix @ ''esi '' @ identifier m]
             else if source_bmac m \<noteq> []
             then acc @ [setPrefix @ ''esi source-bmac '' @ source_bmac m]
             else acc))"

definition setIntEsi ::
  "device \<Rightarrow> string \<Rightarrow> esiBlock option list \<Rightarrow> session \<Rightarrow> error option \<times> session" where
  "setIntEsi dev setPrefix esiParams s = configSet dev (esiConfigSet setPrefix esiParams []) s"

definition deviceCountSet :: string where
  "deviceCountSet = ''set chassis aggregated-devices ethernet device-count ''"

definition deviceCountDelete :: string where
  "deviceCountDelete = ''delete chassis aggregated-devices ethernet device-count''"

definition setInterfacePhysical ::
  "device \<Rightarrow> (string list \<Rightarrow> string list) \<Rightarrow> ifaceData \<Rightarrow> session
     \<Rightarrow> error option \<times> session" where
  "setInterfacePhysical dev srt d s =
     (let setPrefix = ''set interfaces '' @ d_name d @ '' '' in
      if d_ae_lacp d \<noteq> [] \<and> \<not> HasPrefix (d_name d) ''ae''
      then (Some (Errorf ''ae_lacp invalid for this interface''), s)
      else if d_ae_link_speed d \<noteq> [] \<and> \<not> HasPrefix (d_name d) ''ae''
      then (Some (Errorf ''ae_link_speed invalid for this interface''), s)
      else if d_ae_minimum_links d > 0 \<and> \<not> HasPrefix (d_name d) ''ae''
      then (Some (Errorf ''ae_minimum_links invalid for this interface''), s)
      else
        (let configSet4 =
               [setPrefix]
               @ (if d_ae_lacp d \<noteq> []
                  then [setPrefix @ ''aggregated-ether-options lacp '' @ d_ae_lacp d] else [])
               @ (if d_ae_link_speed d \<noteq> []
                  then [setPrefix @ ''aggregated-ether-options link-speed '' @ d_ae_link_speed d]
                  else [])
               @ (if d_ae_minimum_links d > 0
                  then [setPrefix @ ''aggregated-ether-options minimum-links '' @
                        Itoa (d_ae_minimum_links d)]
                  else [])
               @ (if d_description d \<noteq> []
                  then [setPrefix @ ''description '' @ [dq] @ d_description d @ [dq]] else [])
         in case setIntEsi dev setPrefix (d_esi d) s of
              (Some err, s1) \<Rightarrow> (Some err, s1)
            | (None, s1) \<Rightarrow>
                (case (if HasPrefix (d_name d) ''ae'' then
                         (case interfaceAggregatedCountSearchMax dev srt (d_name d) ''ae-1''
                                 (d_name d) s1 of
                            (Inl err, s2) \<Rightarrow> (Inl err, s2)
                          | (Inr aggregatedCount, s2) \<Rightarrow>
                              (Inr (configSet4 @ [deviceCountSet @ aggregatedCount]), s2))
                       else if d_ether802_3ad d \<noteq> [] then
                         (let oldAE =
                                (if d_ether802_3ad_old d \<noteq> d_ether802_3ad d \<and>
                                    d_ether802_3ad_old d \<noteq> []
                                 then d_ether802_3ad_old d else ''ae-1'')
                          in case interfaceAggregatedCountSearchMax dev srt (d_ether802_3ad d)
                                    oldAE (d_name d) s1 of
                               (Inl err, s2) \<Rightarrow> (Inl err, s2)
                             | (Inr aggregatedCount, s2) \<Rightarrow>
                                 (Inr (configSet4 @
                                       [setPrefix @ ''ether-options 802.3ad '' @ d_ether802_3ad d,
                                        setPrefix @ ''gigether-options 802.3ad '' @ d_ether802_3ad d,
                                        deviceCountSet @ aggregatedCount]), s2))
                       else (Inr configSet4, s1)) of
                   (Inl err, s2) \<Rightarrow> (Some err, s2)
                 | (Inr configSet5, s2) \<Rightarrow>
                     configSet dev
                       (configSet5
                        @ (if d_trunk d
                           then [setPrefix @ ''unit 0 family ethernet-switching interface-mode trunk'']
                           else [])
                        @ map (\<lambda>v. setPrefix @ ''unit 0 family ethernet-switching vlan members '' @ v)
                            (d_vlan_members d)
                        @ (if d_vlan_native d \<noteq> 0
                           then [setPrefix @ ''native-vlan-id '' @ Itoa (d_vlan_native d)] else [])
                        @ (if d_vlan_tagging d then [setPrefix @ ''vlan-tagging''] else []))
                       s2)))"

text \<open>
  The pattern \<open>^([\d\w]{2}:){9}[\d\w]{2}\<close> of \<open>readIntEsi\<close>: nine groups of two word
  characters and a colon, then two word characters, at the start of the text. The
  pattern is a constant that compiles, so \<open>regexp.MatchString\<close> returns no error.
\<close>

definition isWord :: "char \<Rightarrow> bool" where
  "isWord c =
     (isDigit c \<or> (65 \<le> (of_char c :: nat) \<and> (of_char c :: nat) \<le> 90)
      \<or> (97 \<le> (of_char c :: nat) \<and> (of_char c :: nat) \<le> 122) \<or> c = CHR ''_'')"

fun esiIdGroups :: "nat \<Rightarrow> string \<Rightarrow> bool" where
  "esiIdGroups 0 s = (case s of a # b # _ \<Rightarrow> isWord a \<and> isWord b | _ \<Rightarrow> False)"
| "esiIdGroups (Suc n) s =
     (case s of
        a # b # c # r \<Rightarrow> isWord a \<and> isWord b \<and> c = CHR '':'' \<and> esiIdGroups n r
      | _ \<Rightarrow> False)"

definition regexpEsiIdentifier :: "string \<Rightarrow> bool" where
  "regexpEsiIdentifier s = esiIdGroups 9 s"

definition readIntEsi :: "interfacePhysicalOptions \<Rightarrow> string \<Rightarrow> interfacePhysicalOptions" where
  "readIntEsi confRead item =
     (let itemTrim = TrimPrefix item ''esi '';
          blocks = (if length (esi confRead) = 0
                    then [\<lparr>mode = [], auto_derive_lacp = False, df_election_type = [],
                           identifier = [], source_bmac = []\<rparr>]
                    else esi confRead);
          b = hd blocks;
          b' = (if regexpEsiIdentifier itemTrim then b\<lparr>identifier := itemTrim\<rparr>
                else if itemTrim = ''all-active'' \<or> itemTrim = ''single-active''
                then b\<lparr>mode := itemTrim\<rparr>
                else if HasPrefix itemTrim ''df-election-type ''
                then b\<lparr>df_election_type := TrimPrefix itemTrim ''df-election-type ''\<rparr>
                else if HasPrefix itemTrim ''source-bmac ''
                then b\<lparr>source_bmac := TrimPrefix itemTrim ''source-bmac ''\<rparr>
                else if itemTrim = ''auto-derive lacp'' then b\<lparr>auto_derive_lacp := True\<rparr>
                else b)
      in confRead\<lparr>esi := b' # tl blocks\<rparr>)"

definition convertError :: "string \<Rightarrow> string \<Rightarrow> error" where
  "convertError itemTrim num =
     ErrorfW (''failed to convert value from '' @ [sq] @ itemTrim @ [sq] @ '' to integer : '')
       (NumError num)"

text \<open>The loop of \<open>readInterfacePhysical\<close> over the lines of the dump.\<close>

fun readInterfaceLoop ::
  "string list \<Rightarrow> interfacePhysicalOptions \<Rightarrow> error + interfacePhysicalOptions" where
  "readInterfaceLoop [] confRead = Inr confRead"
| "readInterfaceLoop (item # rest) confRead =
     (if Contains item '' unit '' \<and> \<not> Contains item ''ethernet-switching''
      then readInterfaceLoop rest confRead
      else if Contains item ''<configuration-output>'' then readInterfaceLoop rest confRead
      else if Contains item ''</configuration-output>'' then Inr confRead
      else
        (let itemTrim = TrimPrefix item setLineStart in
         if HasPrefix itemTrim ''aggregated-ether-options lacp '' then
           readInterfaceLoop rest
             (confRead\<lparr>aeLacp := TrimPrefix itemTrim ''aggregated-ether-options lacp ''\<rparr>)
         else if HasPrefix itemTrim ''aggregated-ether-options link-speed '' then
           readInterfaceLoop rest
             (confRead\<lparr>aeLinkSpeed := TrimPrefix itemTrim ''aggregated-ether-options link-speed ''\<rparr>)
         else if HasPrefix itemTrim ''aggregated-ether-options minimum-links '' then
           (case Atoi (TrimPrefix itemTrim ''aggregated-ether-options minimum-links '') of
              None \<Rightarrow>
                Inl (convertError itemTrim
                       (TrimPrefix itemTrim ''aggregated-ether-options minimum-links ''))
            | Some n \<Rightarrow> readInterfaceLoop rest (confRead\<lparr>aeMinLink := n\<rparr>))
         else if HasPrefix itemTrim ''description '' then
           readInterfaceLoop rest
             (confRead\<lparr>description := Trim (TrimPrefix itemTrim ''description '') dq\<rparr>)
         else if HasPrefix itemTrim ''esi '' then
           readInterfaceLoop rest (readIntEsi confRead itemTrim)
         else if HasPrefix itemTrim ''ether-options 802.3ad '' then
           readInterfaceLoop rest
             (confRead\<lparr>v8023ad := TrimPrefix itemTrim ''ether-options 802.3ad ''\<rparr>)
         else if HasPrefix itemTrim ''gigether-options 802.3ad '' then
           readInterfaceLoop rest
             (confRead\<lparr>v8023ad := TrimPrefix itemTrim ''gigether-options 802.3ad ''\<rparr>)
         else if HasPrefix itemTrim ''native-vlan-id'' then
           (case Atoi (TrimPrefix itemTrim ''native-vlan-id '') of
              None \<Rightarrow> Inl (convertError itemTrim (TrimPrefix itemTrim ''native-vlan-id ''))
            | Some n \<Rightarrow> readInterfaceLoop rest (confRead\<lparr>vlanNative := n\<rparr>))
         else if itemTrim = ''unit 0 family ethernet-switching interface-mode trunk'' then
           readInterfaceLoop rest (confRead\<lparr>trunk := True\<rparr>)
         else if HasPrefix itemTrim ''unit 0 family ethernet-switching vlan members'' then
           readInterfaceLoop rest
             (confRead\<lparr>vlanMembers := vlanMembers confRead @
                [TrimPrefix itemTrim ''unit 0 family ethernet-switching vlan members '']\<rparr>)
         else if itemTrim = ''vlan-tagging'' then
           readInterfaceLoop rest (confRead\<lparr>vlanTagging := True\<rparr>)
         else readInterfaceLoop rest confRead))"

definition zeroInterfaceOptions :: interfacePhysicalOptions where
  "zeroInterfaceOptions =
     \<lparr>trunk = False, vlanTagging = False, aeMinLink = 0, vlanNative = 0, aeLacp = [],
      aeLinkSpeed = [], description = [], v8023ad = [], vlanMembers = [], esi = []\<rparr>"

definition readInterfaceConfig :: "string \<Rightarrow> error + interfacePhysicalOptions" where
  "readInterfaceConfig intConfig =
     (if intConfig \<noteq> emptyWord then readInterfaceLoop (Split intConfig) zeroInterfaceOptions
      else Inr zeroInterfaceOptions)"

definition readInterfacePhysical ::
  "device \<Rightarrow> string \<Rightarrow> session \<Rightarrow> (error + interfacePhysicalOptions) \<times> session" where
  "readInterfacePhysical dev interFace s =
     (case command dev (showInterface interFace) s of
        (Inl err, s1) \<Rightarrow> (Inl err, s1)
      | (Inr intConfig, s1) \<Rightarrow> (readInterfaceConfig intConfig, s1))"

text \<open>The loop of \<open>checkInterfacePhysicalContainsUnit\<close>.\<close>

fun containsUnitLoop :: "string \<Rightarrow> string list \<Rightarrow> error option" where
  "containsUnitLoop interFace [] = None"
| "containsUnitLoop interFace (item # rest) =
     (if Contains item ''<configuration-output>'' then containsUnitLoop interFace rest
      else if Contains item ''</configuration-output>'' then None
      else if HasPrefix item ''set unit'' then
        (if Contains item ''ethernet-switching'' then containsUnitLoop interFace rest
         else Some (Errorf (''interface '' @ interFace @
                            '' is used for other son unit interface'')))
      else containsUnitLoop interFace rest)"

definition checkInterfacePhysicalContainsUnit ::
  "device \<Rightarrow> string \<Rightarrow> session \<Rightarrow> error option \<times> session" where
  "checkInterfacePhysicalContainsUnit dev interFace s =
     (case command dev (showInterface interFace) s of
        (Inl err, s1) \<Rightarrow> (Some err, s1)
      | (Inr intConfig, s1) \<Rightarrow> (containsUnitLoop interFace (Split intConfig), s1))"

definition delInterfacePhysical ::
  "device \<Rightarrow> (string list \<Rightarrow> string list) \<Rightarrow> ifaceData \<Rightarrow> session
     \<Rightarrow> error option \<times> session" where
  "delInterfacePhysical dev srt d s =
     (case checkInterfacePhysicalContainsUnit dev (d_name d) s of
        (Some err, s1) \<Rightarrow> (Some err, s1)
      | (None, s1) \<Rightarrow>
          (case configSet dev [''delete interfaces '' @ d_name d] s1 of
             (Some err, s2) \<Rightarrow> (Some err, s2)
           | (None, s2) \<Rightarrow>
               (if HasPrefix (d_name d) ''ae'' then
                  (case interfaceAggregatedCountSearchMax dev srt ''ae-1'' (d_name d)
                          (d_name d) s2 of
                     (Inl err, s3) \<Rightarrow> (Some err, s3)
                   | (Inr aggregatedCount, s3) \<Rightarrow>
                       (if aggregatedCount = ''0'' then configSet dev [deviceCountDelete] s3
                        else configSet dev [deviceCountSet @ aggregatedCount] s3))
                else if d_ether802_3ad d \<noteq> [] then
                  (case interfaceAggregatedLastChild dev (d_ether802_3ad d) (d_name d) s2 of
                     (Inl err, s3) \<Rightarrow> (Some err, s3)
                   | (Inr lastAEchild, s3) \<Rightarrow>
                       (if lastAEchild then
                          (case interfaceAggregatedCountSearchMax dev srt ''ae-1''
                                  (d_ether802_3ad d) (d_name d) s3 of
                             (Inl err, s4) \<Rightarrow> (Some err, s4)
                           | (Inr aggregatedCount, s4) \<Rightarrow>
                               (if aggregatedCount = ''0''
                                then configSet dev [deviceCountDelete] s4
                                else configSet dev [deviceCountSet @ aggregatedCount] s4))
                        else (None, s3)))
                else (None, s2))))"

definition delInterfaceNC :: "device \<Rightarrow> ifaceData \<Rightarrow> session \<Rightarrow> error option \<times> session" where
  "delInterfaceNC dev d s =
     (let delPrefix = ''delete interfaces '' @ d_name d @ '' '' in
      configSet dev
        ((if junosGroupIntDel dev \<noteq> []
          then [delPrefix @ ''apply-groups '' @ junosGroupIntDel dev] else [])
         @ [delPrefix @ ''description'', delPrefix @ ''disable''])
        s)"

definition delInterfacePhysicalOpts ::
  "device \<Rightarrow> ifaceData \<Rightarrow> session \<Rightarrow> error option \<times> session" where
  "delInterfacePhysicalOpts dev d s =
     (let delPrefix = ''delete interfaces '' @ d_name d @ '' '' in
      configSet dev
        [delPrefix @ ''aggregated-ether-options'',
         delPrefix @ ''esi'',
         delPrefix @ ''ether-options 802.3ad'',
         delPrefix @ ''gigether-options 802.3ad'',
         delPrefix @ ''native-vlan-id'',
         delPrefix @ ''unit 0 family ethernet-switching interface-mode'',
         delPrefix @ ''unit 0 family ethernet-switching vlan members'',
         delPrefix @ ''vlan-tagging'']
        s)"

definition fillInterfacePhysicalData :: "ifaceData \<Rightarrow> interfacePhysicalOptions \<Rightarrow> ifaceData" where
  "fillInterfacePhysicalData d interfaceOpt =
     d\<lparr>d_ae_lacp := aeLacp interfaceOpt,
       d_ae_link_speed := aeLinkSpeed interfaceOpt,
       d_ae_minimum_links := aeMinLink interfaceOpt,
       d_esi := map Some (esi interfaceOpt),
       d_description := description interfaceOpt,
       d_ether802_3ad := v8023ad interfaceOpt,
       d_trunk := trunk interfaceOpt,
       d_vlan_members := vlanMembers interfaceOpt,
       d_vlan_native := vlanNative interfaceOpt,
       d_vlan_tagging := vlanTagging interfaceOpt\<rparr>"

text \<open>
  The operations return their diagnostics and the resource data as they leave it. The
  process-wide \<open>mutex\<close> around the reads orders concurrent operations and has no
  effect on one operation taken alone: it is left out.
\<close>

definition resourceInterfacePhysicalReadWJnprSess ::
  "device \<Rightarrow> ifaceData \<Rightarrow> session \<Rightarrow> (diag list \<times> ifaceData) \<times> session" where
  "resourceInterfacePhysicalReadWJnprSess dev d s =
     (case checkInterfacePhysicalNCEmpty dev (d_name d) s of
        (Inl err, s1) \<Rightarrow> (([DiagError err], d), s1)
      | (Inr (ncInt, emptyInt), s1) \<Rightarrow>
          (if ncInt then (([], d\<lparr>d_id := []\<rparr>), s1)
           else
             (case (if emptyInt then checkInterfaceExists dev (d_name d) s1
                    else (Inr True, s1)) of
                (Inl err, s2) \<Rightarrow> (([DiagError err], d), s2)
              | (Inr intExists, s2) \<Rightarrow>
                  (if \<not> intExists then (([], d\<lparr>d_id := []\<rparr>), s2)
                   else
                     (case readInterfacePhysical dev (d_name d) s2 of
                        (Inl err, s3) \<Rightarrow> (([DiagError err], d), s3)
                      | (Inr interfaceOpt, s3) \<Rightarrow>
                          (([], fillInterfacePhysicalData d interfaceOpt), s3))))))"

text \<open>
  \<open>resourceInterfacePhysicalCreate\<close> in three parts: the check after a commit that
  succeeded (\<open>interfaceCreateVerify\<close>), the body between \<open>configLock\<close> and the return
  (\<open>interfaceCreateBody\<close>), and the operation with its session; the deferred
  \<open>closeSession\<close> runs after the body.
\<close>

definition interfaceCreateVerify ::
  "device \<Rightarrow> ifaceData \<Rightarrow> error list \<Rightarrow> session \<Rightarrow> (diag list \<times> ifaceData) \<times> session" where
  "interfaceCreateVerify dev d warns s5 =
     (case checkInterfacePhysicalNCEmpty dev (d_name d) s5 of
        (Inl err, s6) \<Rightarrow> ((map DiagWarning warns @ [DiagError err], d), s6)
      | (Inr (ncInt, emptyInt), s6) \<Rightarrow>
          (if ncInt then
             ((map DiagWarning warns @
               [DiagError (Errorf (''interface '' @ d_name d @
                  '' always disable after commit => check your config''))],
               d), s6)
           else
             (case (if emptyInt then checkInterfaceExists dev (d_name d) s6
                    else (Inr True, s6)) of
                (Inl err, s7) \<Rightarrow> ((map DiagWarning warns @ [DiagError err], d), s7)
              | (Inr intExists, s7) \<Rightarrow>
                  (if \<not> intExists then
                     ((map DiagWarning warns @
                       [DiagError (Errorf (''interface '' @ d_name d @
                          '' not exists and config can'' @ [sq] @
                          ''t found after commit => check your config''))],
                       d), s7)
                   else
                     (case resourceInterfacePhysicalReadWJnprSess dev
                             (d\<lparr>d_id := d_name d\<rparr>) s7 of
                        ((diags, d2), s8) \<Rightarrow> ((map DiagWarning warns @ diags, d2), s8))))))"

definition interfaceCreateBody ::
  "device \<Rightarrow> (string list \<Rightarrow> string list) \<Rightarrow> ifaceData \<Rightarrow> session
     \<Rightarrow> (diag list \<times> ifaceData) \<times> session" where
  "interfaceCreateBody dev srt d s1 =
     (case checkInterfacePhysicalNCEmpty dev (d_name d) s1 of
        (Inl err, s2) \<Rightarrow> (([DiagError err], d), configClear dev s2)
      | (Inr (ncInt, emptyInt), s2) \<Rightarrow>
          (if \<not> ncInt \<and> \<not> emptyInt then
             (([DiagError (Errorf (''interface '' @ d_name d @ '' already configured''))], d),
              configClear dev s2)
           else
             (case (if ncInt then delInterfaceNC dev d s2 else (None, s2)) of
                (Some err, s3) \<Rightarrow> (([DiagError err], d), configClear dev s3)
              | (None, s3) \<Rightarrow>
                  (case setInterfacePhysical dev srt d s3 of
                     (Some err, s4) \<Rightarrow> (([DiagError err], d), configClear dev s4)
                   | (None, s4) \<Rightarrow>
                       (case commitConf dev ''create resource junos_interface_physical'' s4 of
                          ((warns, Some err), s5) \<Rightarrow>
                            ((map DiagWarning warns @ [DiagError err], d), configClear dev s5)
                        | ((warns, None), s5) \<Rightarrow> interfaceCreateVerify dev d warns s5)))))"

definition resourceInterfacePhysicalCreate ::
  "device \<Rightarrow> (string list \<Rightarrow> string list) \<Rightarrow> ifaceData \<Rightarrow> session
     \<Rightarrow> (diag list \<times> ifaceData) \<times> session" where
  "resourceInterfacePhysicalCreate dev srt d s =
     (case startNewSession dev s of
        (Some err, s0) \<Rightarrow> (([DiagError err], d), s0)
      | (None, s0) \<Rightarrow>
          (case interfaceCreateBody dev srt d (snd (configLock dev s0)) of
             (r, s9) \<Rightarrow> (r, closeSession dev s9)))"

definition interfaceUpdateBody ::
  "device \<Rightarrow> (string list \<Rightarrow> string list) \<Rightarrow> ifaceData \<Rightarrow> session
     \<Rightarrow> (diag list \<times> ifaceData) \<times> session" where
  "interfaceUpdateBody dev srt d s1 =
     (case delInterfacePhysicalOpts dev d s1 of
        (Some err, s2) \<Rightarrow> (([DiagError err], d), configClear dev s2)
      | (None, s2) \<Rightarrow>
          (case setInterfacePhysical dev srt d s2 of
             (Some err, s3) \<Rightarrow> (([DiagError err], d), configClear dev s3)
           | (None, s3) \<Rightarrow>
               (case commitConf dev ''update resource junos_interface_physical'' s3 of
                  ((warns, Some err), s4) \<Rightarrow>
                    ((map DiagWarning warns @ [DiagError err], d), configClear dev s4)
                | ((warns, None), s4) \<Rightarrow>
                    (case resourceInterfacePhysicalReadWJnprSess dev d s4 of
                       ((diags, d2), s5) \<Rightarrow> ((map DiagWarning warns @ diags, d2), s5)))))"

definition resourceInterfacePhysicalUpdate ::
  "device \<Rightarrow> (string list \<Rightarrow> string list) \<Rightarrow> ifaceData \<Rightarrow> session
     \<Rightarrow> (diag list \<times> ifaceData) \<times> session" where
  "resourceInterfacePhysicalUpdate dev srt d s =
     (case startNewSession dev s of
        (Some err, s0) \<Rightarrow> (([DiagError err], d), s0)
      | (None, s0) \<Rightarrow>
          (case interfaceUpdateBody dev srt d (snd (configLock dev s0)) of
             (r, s9) \<Rightarrow> (r, closeSession dev s9)))"

text \<open>
  The end of \<open>resourceInterfacePhysicalDelete\<close>, after the commit of the deletion
  succeeded: the interface that still exists is parked, with a second commit.
\<close>

definition interfaceDeleteDisable ::
  "device \<Rightarrow> ifaceData \<Rightarrow> error list \<Rightarrow> session \<Rightarrow> (diag list \<times> ifaceData) \<times> session" where
  "interfaceDeleteDisable dev d warns s3 =
     (if \<not> d_no_disable_on_destroy d then
        (case checkInterfaceExists dev (d_name d) s3 of
           (Inl err, s4) \<Rightarrow> ((map DiagWarning warns @ [DiagWarning err], d), s4)
         | (Inr intExists, s4) \<Rightarrow>
             (if intExists then
                (case addInterfacePhysicalNC dev (d_name d) s4 of
                   (Some err, s5) \<Rightarrow>
                     ((map DiagWarning warns @ [DiagError err], d), configClear dev s5)
                 | (None, s5) \<Rightarrow>
                     (case commitConf dev
                             ''disable(NC) resource junos_interface_physical'' s5 of
                        ((warns2, Some err), s6) \<Rightarrow>
                          ((map DiagWarning warns @ [DiagError err], d), configClear dev s6)
                      | ((warns2, None), s6) \<Rightarrow> ((map DiagWarning warns, d), s6)))
              else ((map DiagWarning warns, d), s4)))
      else ((map DiagWarning warns, d), s3))"

definition interfaceDeleteBody ::
  "device \<Rightarrow> (string list \<Rightarrow> string list) \<Rightarrow> ifaceData \<Rightarrow> session
     \<Rightarrow> (diag list \<times> ifaceData) \<times> session" where
  "interfaceDeleteBody dev srt d s1 =
     (case delInterfacePhysical dev srt d s1 of
        (Some err, s2) \<Rightarrow> (([DiagError err], d), configClear dev s2)
      | (None, s2) \<Rightarrow>
          (case commitConf dev ''delete resource junos_interface_physical'' s2 of
             ((warns, Some err), s3) \<Rightarrow>
               ((map DiagWarning warns @ [DiagError err], d), configClear dev s3)
           | ((warns, None), s3) \<Rightarrow> interfaceDeleteDisable dev d warns s3))"

definition resourceInterfacePhysicalDelete ::
  "device \<Rightarrow> (string list \<Rightarrow> string list) \<Rightarrow> ifaceData \<Rightarrow> session
     \<Rightarrow> (diag list \<times> ifaceData) \<times> session" where
  "resourceInterfacePhysicalDelete dev srt d s =
     (case startNewSession dev s of
        (Some err, s0) \<Rightarrow> (([DiagError err], d), s0)
      | (None, s0) \<Rightarrow>
          (case interfaceDeleteBody dev srt d (snd (configLock dev s0)) of
             (r, s9) \<Rightarrow> (r, closeSession dev s9)))"

section \<open>Security UTM policies\<close>

text \<open>
  The map of \<open>genMapUtmPolicyProfile\<close> (the shape of an \<open>anti_virus\<close> and of a
  \<open>content_filtering\<close> block) and the map of a \<open>traffic_sessions_per_client\<close> block.
\<close>

record utmProfile =
  ftp_download_profile :: string
  ftp_upload_profile :: string
  http_profile :: string
  imap_profile :: string
  pop3_profile :: string
  smtp_profile :: string

record sessionsPerClient =
  limit :: int
  over_limit :: string

record utmPolicyOptions =
  name :: string
  antiSpamSMTPProfile :: string
  webFilteringProfile :: string
  antiVirus :: "utmProfile list"
  contentFiltering :: "utmProfile list"
  trafficSessionsPerClient :: "sessionsPerClient list"

record utmData =
  p_name :: string
  p_anti_spam_smtp_profile :: string
  p_anti_virus :: "utmProfile option list"
  p_content_filtering :: "utmProfile option list"
  p_traffic_sessions_per_client :: "sessionsPerClient option list"
  p_web_filtering_profile :: string
  p_id :: string

definition checkUtmPolicysExists ::
  "device \<Rightarrow> string \<Rightarrow> session \<Rightarrow> (error + bool) \<times> session" where
  "checkUtmPolicysExists dev policy s =
     (case command dev (''show configuration security utm utm-policy '' @ [dq] @ policy @ [dq]
                        @ '' | display set'') s of
        (Inl err, s1) \<Rightarrow> (Inl err, s1)
      | (Inr policyConfig, s1) \<Rightarrow>
          (if policyConfig = emptyWord then (Inr False, s1) else (Inr True, s1)))"

text \<open>
  The six statements of one profile block under its prefix. The source writes them out
  twice, once under \<open>anti-virus\<close> and once under \<open>content-filtering\<close>.
\<close>

definition profileConfigSet :: "string \<Rightarrow> utmProfile \<Rightarrow> string list" where
  "profileConfigSet pfx m =
     (if ftp_download_profile m \<noteq> []
      then [pfx @ ''ftp download-profile '' @ [dq] @ ftp_download_profile m @ [dq]] else [])
     @ (if ftp_upload_profile m \<noteq> []
        then [pfx @ ''ftp upload-profile '' @ [dq] @ ftp_upload_profile m @ [dq]] else [])
     @ (if http_profile m \<noteq> []
        then [pfx @ ''http-profile '' @ [dq] @ http_profile m @ [dq]] else [])
     @ (if imap_profile m \<noteq> []
        then [pfx @ ''imap-profile '' @ [dq] @ imap_profile m @ [dq]] else [])
     @ (if pop3_profile m \<noteq> []
        then [pfx @ ''pop3-profile '' @ [dq] @ pop3_profile m @ [dq]] else [])
     @ (if smtp_profile m \<noteq> []
        then [pfx @ ''smtp-profile '' @ [dq] @ smtp_profile m @ [dq]] else [])"

fun profileLoop ::
  "string \<Rightarrow> string \<Rightarrow> utmProfile option list \<Rightarrow> string list \<Rightarrow> error + string list" where
  "profileLoop pfx emptyMsg [] acc = Inr acc"
| "profileLoop pfx emptyMsg (v # vs) acc =
     (case v of
        Some m \<Rightarrow> profileLoop pfx emptyMsg vs (acc @ profileConfigSet pfx m)
      | None \<Rightarrow> Inl (Errorf emptyMsg))"

fun sessionsLoop ::
  "string \<Rightarrow> sessionsPerClient option list \<Rightarrow> string list \<Rightarrow> error + string list" where
  "sessionsLoop setPrefix [] acc = Inr acc"
| "sessionsLoop setPrefix (v # vs) acc =
     (case v of
        Some m \<Rightarrow>
          sessionsLoop setPrefix vs
            (acc
             @ (if limit m \<noteq> - 1
                then [setPrefix @ ''traffic-options sessions-per-client limit '' @ Itoa (limit m)]
                else [])
             @ (if over_limit m \<noteq> []
                then [setPrefix @ ''traffic-options sessions-per-client over-limit '' @ over_limit m]
                else []))
      | None \<Rightarrow> Inl (Errorf ''traffic_sessions_per_client block is empty''))"

text \<open>The statement list that \<open>setUtmPolicy\<close> builds, or the error it returns before.\<close>

definition utmConfigSet :: "utmData \<Rightarrow> error + string list" where
  "utmConfigSet d =
     (let setPrefix = ''set security utm utm-policy '' @ [dq] @ p_name d @ [dq] @ '' '';
          configSet1 =
            (if p_anti_spam_smtp_profile d \<noteq> []
             then [setPrefix @ ''anti-spam smtp-profile '' @ [dq] @ p_anti_spam_smtp_profile d @ [dq]]
             else [])
      in case profileLoop (setPrefix @ ''anti-virus '') ''anti_virus block is empty''
                (p_anti_virus d) configSet1 of
           Inl err \<Rightarrow> Inl err
         | Inr configSet2 \<Rightarrow>
             (case profileLoop (setPrefix @ ''content-filtering '')
                     ''content_filtering block is empty'' (p_content_filtering d) configSet2 of
                Inl err \<Rightarrow> Inl err
              | Inr configSet3 \<Rightarrow>
                  (case sessionsLoop setPrefix (p_traffic_sessions_per_client d) configSet3 of
                     Inl err \<Rightarrow> Inl err
                   | Inr configSet4 \<Rightarrow>
                       Inr (configSet4
                            @ (if p_web_filtering_profile d \<noteq> []
                               then [setPrefix @ ''web-filtering http-profile '' @ [dq] @
                                     p_web_filtering_profile d @ [dq]]
                               else [])))))"

definition setUtmPolicy :: "device \<Rightarrow> utmData \<Rightarrow> session \<Rightarrow> error option \<times> session" where
  "setUtmPolicy dev d s =
     (case utmConfigSet d of
        Inl err \<Rightarrow> (Some err, s)
      | Inr stmts \<Rightarrow> configSet dev stmts s)"

definition genMapUtmPolicyProfile :: utmProfile where
  "genMapUtmPolicyProfile =
     \<lparr>ftp_download_profile = [], ftp_upload_profile = [], http_profile = [],
      imap_profile = [], pop3_profile = [], smtp_profile = []\<rparr>"

definition readUtmPolicyProfile :: "string \<Rightarrow> utmProfile \<Rightarrow> utmProfile" where
  "readUtmPolicyProfile itemTrimPolicyProfile profileMap =
     (if HasPrefix itemTrimPolicyProfile ''ftp download-profile '' then
        profileMap\<lparr>ftp_download_profile :=
          Trim (TrimPrefix itemTrimPolicyProfile ''ftp download-profile '') dq\<rparr>
      else if HasPrefix itemTrimPolicyProfile ''ftp upload-profile '' then
        profileMap\<lparr>ftp_upload_profile :=
          Trim (TrimPrefix itemTrimPolicyProfile ''ftp upload-profile '') dq\<rparr>
      else if HasPrefix itemTrimPolicyProfile ''http-profile '' then
        profileMap\<lparr>http_profile := Trim (TrimPrefix itemTrimPolicyProfile ''http-profile '') dq\<rparr>
      else if HasPrefix itemTrimPolicyProfile ''imap-profile '' then
        profileMap\<lparr>imap_profile := Trim (TrimPrefix itemTrimPolicyProfile ''imap-profile '') dq\<rparr>
      else if HasPrefix itemTrimPolicyProfile ''pop3-profile '' then
        profileMap\<lparr>pop3_profile := Trim (TrimPrefix itemTrimPolicyProfile ''pop3-profile '') dq\<rparr>
      else if HasPrefix itemTrimPolicyProfile ''smtp-profile '' then
        profileMap\<lparr>smtp_profile := Trim (TrimPrefix itemTrimPolicyProfile ''smtp-profile '') dq\<rparr>
      else profileMap)"

text \<open>
  The loop of \<open>readUtmPolicy\<close>. A block list that is still empty gets its first map
  before the line is read into element 0.
\<close>

fun readUtmLoop :: "string list \<Rightarrow> utmPolicyOptions \<Rightarrow> error + utmPolicyOptions" where
  "readUtmLoop [] confRead = Inr confRead"
| "readUtmLoop (item # rest) confRead =
     (if Contains item ''<configuration-output>'' then readUtmLoop rest confRead
      else if Contains item ''</configuration-output>'' then Inr confRead
      else
        (let itemTrim = TrimPrefix item setLineStart in
         if HasPrefix itemTrim ''anti-spam smtp-profile '' then
           readUtmLoop rest
             (confRead\<lparr>antiSpamSMTPProfile :=
                Trim (TrimPrefix itemTrim ''anti-spam smtp-profile '') dq\<rparr>)
         else if HasPrefix itemTrim ''anti-virus '' then
           (let blocks = (if length (antiVirus confRead) = 0 then [genMapUtmPolicyProfile]
                          else antiVirus confRead)
            in readUtmLoop rest
                 (confRead\<lparr>antiVirus :=
                    readUtmPolicyProfile (TrimPrefix itemTrim ''anti-virus '') (hd blocks)
                    # tl blocks\<rparr>))
         else if HasPrefix itemTrim ''content-filtering '' then
           (let blocks = (if length (contentFiltering confRead) = 0 then [genMapUtmPolicyProfile]
                          else contentFiltering confRead)
            in readUtmLoop rest
                 (confRead\<lparr>contentFiltering :=
                    readUtmPolicyProfile (TrimPrefix itemTrim ''content-filtering '') (hd blocks)
                    # tl blocks\<rparr>))
         else if HasPrefix itemTrim ''traffic-options sessions-per-client '' then
           (let blocks = (if length (trafficSessionsPerClient confRead) = 0
                          then [\<lparr>limit = - 1, over_limit = []\<rparr>]
                          else trafficSessionsPerClient confRead)
            in case (if HasPrefix itemTrim ''traffic-options sessions-per-client limit '' then
                       (case Atoi (TrimPrefix itemTrim
                               ''traffic-options sessions-per-client limit '') of
                          None \<Rightarrow>
                            Inl (NumError (TrimPrefix itemTrim
                                   ''traffic-options sessions-per-client limit ''))
                        | Some n \<Rightarrow> Inr ((hd blocks)\<lparr>limit := n\<rparr>))
                     else Inr (hd blocks)) of
                 Inl err \<Rightarrow> Inl err
               | Inr b1 \<Rightarrow>
                   readUtmLoop rest
                     (confRead\<lparr>trafficSessionsPerClient :=
                        (if HasPrefix itemTrim ''traffic-options sessions-per-client over-limit ''
                         then b1\<lparr>over_limit := TrimPrefix itemTrim
                                 ''traffic-options sessions-per-client over-limit ''\<rparr>
                         else b1) # tl blocks\<rparr>))
         else if HasPrefix itemTrim ''web-filtering http-profile '' then
           readUtmLoop rest
             (confRead\<lparr>webFilteringProfile :=
                Trim (TrimPrefix itemTrim ''web-filtering http-profile '') dq\<rparr>)
         else readUtmLoop rest confRead))"

definition zeroUtmOptions :: utmPolicyOptions where
  "zeroUtmOptions =
     \<lparr>name = [], antiSpamSMTPProfile = [], webFilteringProfile = [], antiVirus = [],
      contentFiltering = [], trafficSessionsPerClient = []\<rparr>"

definition readUtmConfig :: "string \<Rightarrow> string \<Rightarrow> error + utmPolicyOptions" where
  "readUtmConfig policy policyConfig =
     (if policyConfig \<noteq> emptyWord
      then readUtmLoop (Split policyConfig) (zeroUtmOptions\<lparr>name := policy\<rparr>)
      else Inr (zeroUtmOptions\<lparr>name := []\<rparr>))"

definition readUtmPolicy ::
  "device \<Rightarrow> string \<Rightarrow> session \<Rightarrow> (error + utmPolicyOptions) \<times> session" where
  "readUtmPolicy dev policy s =
     (case command dev (''show configuration security utm utm-policy '' @ [dq] @ policy @ [dq]
                        @ '' | display set relative'') s of
        (Inl err, s1) \<Rightarrow> (Inl err, s1)
      | (Inr policyConfig, s1) \<Rightarrow> (readUtmConfig policy policyConfig, s1))"

definition delUtmPolicy :: "device \<Rightarrow> string \<Rightarrow> session \<Rightarrow> error option \<times> session" where
  "delUtmPolicy dev policy s =
     configSet dev [''delete security utm utm-policy '' @ [dq] @ policy @ [dq]] s"

definition fillUtmPolicyData :: "utmData \<Rightarrow> utmPolicyOptions \<Rightarrow> utmData" where
  "fillUtmPolicyData d opts =
     d\<lparr>p_name := name opts,
       p_anti_spam_smtp_profile := antiSpamSMTPProfile opts,
       p_anti_virus := map Some (antiVirus opts),
       p_content_filtering := map Some (contentFiltering opts),
       p_traffic_sessions_per_client := map Some (trafficSessionsPerClient opts),
       p_web_filtering_profile := webFilteringProfile opts\<rparr>"

text \<open>
  In the revision of the UTM policy file \<open>commitConf\<close> returns an error only, and the
  result of \<open>configLock\<close> is checked. Each operation is given as its body between
  \<open>configLock\<close> and the return, and the operation with its session; the check of
  \<open>resourceSecurityUtmPolicyCreate\<close> after the commit is \<open>utmCreateVerify\<close>.
\<close>

definition commitConfErr :: "device \<Rightarrow> string \<Rightarrow> session \<Rightarrow> error option \<times> session" where
  "commitConfErr dev logMessage s =
     (case commitConf dev logMessage s of ((warns, err), s1) \<Rightarrow> (err, s1))"

definition resourceSecurityUtmPolicyRead ::
  "device \<Rightarrow> utmData \<Rightarrow> session \<Rightarrow> (error option \<times> utmData) \<times> session" where
  "resourceSecurityUtmPolicyRead dev d s =
     (case startNewSession dev s of
        (Some err, s0) \<Rightarrow> ((Some err, d), s0)
      | (None, s0) \<Rightarrow>
          (case readUtmPolicy dev (p_name d) s0 of
             (Inl err, s1) \<Rightarrow> ((Some err, d), closeSession dev s1)
           | (Inr opts, s1) \<Rightarrow>
               (if name opts = [] then ((None, d\<lparr>p_id := []\<rparr>), closeSession dev s1)
                else ((None, fillUtmPolicyData d opts), closeSession dev s1))))"

definition utmCreateVerify ::
  "device \<Rightarrow> utmData \<Rightarrow> session \<Rightarrow> (error option \<times> utmData) \<times> session" where
  "utmCreateVerify dev d s4 =
     (case checkUtmPolicysExists dev (p_name d) s4 of
        (Inl err, s5) \<Rightarrow> ((Some err, d), s5)
      | (Inr utmPolicyExists, s5) \<Rightarrow>
          (if utmPolicyExists
           then resourceSecurityUtmPolicyRead dev (d\<lparr>p_id := p_name d\<rparr>) s5
           else
             ((Some (Errorf (''security utm utm-policy '' @ p_name d @
                  '' not exists after commit => check your config'')), d),
              s5)))"

definition utmCreateBody ::
  "device \<Rightarrow> utmData \<Rightarrow> session \<Rightarrow> (error option \<times> utmData) \<times> session" where
  "utmCreateBody dev d s1 =
     (case checkUtmPolicysExists dev (p_name d) s1 of
        (Inl err, s2) \<Rightarrow> ((Some err, d), configClear dev s2)
      | (Inr utmPolicyExists, s2) \<Rightarrow>
          (if utmPolicyExists then
             ((Some (Errorf (''security utm utm-policy '' @ p_name d @ '' already exists'')), d),
              configClear dev s2)
           else
             (case setUtmPolicy dev d s2 of
                (Some err, s3) \<Rightarrow> ((Some err, d), configClear dev s3)
              | (None, s3) \<Rightarrow>
                  (case commitConfErr dev ''create resource junos_security_utm_policy'' s3 of
                     (Some err, s4) \<Rightarrow> ((Some err, d), configClear dev s4)
                   | (None, s4) \<Rightarrow> utmCreateVerify dev d s4))))"

definition resourceSecurityUtmPolicyCreate ::
  "device \<Rightarrow> utmData \<Rightarrow> session \<Rightarrow> (error option \<times> utmData) \<times> session" where
  "resourceSecurityUtmPolicyCreate dev d s =
     (case startNewSession dev s of
        (Some err, s0) \<Rightarrow> ((Some err, d), s0)
      | (None, s0) \<Rightarrow>
          (if \<not> compatibilitySecurity dev then
             ((Some (Errorf (''security utm utm-policy not compatible with Junos device '' @
                             platformModel dev)), d),
              closeSession dev s0)
           else
             (case configLock dev s0 of
                (Some err, s1) \<Rightarrow> ((Some err, d), closeSession dev s1)
              | (None, s1) \<Rightarrow>
                  (case utmCreateBody dev d s1 of (r, s9) \<Rightarrow> (r, closeSession dev s9)))))"

definition utmUpdateBody ::
  "device \<Rightarrow> utmData \<Rightarrow> session \<Rightarrow> (error option \<times> utmData) \<times> session" where
  "utmUpdateBody dev d s1 =
     (case delUtmPolicy dev (p_name d) s1 of
        (Some err, s2) \<Rightarrow> ((Some err, d), configClear dev s2)
      | (None, s2) \<Rightarrow>
          (case setUtmPolicy dev d s2 of
             (Some err, s3) \<Rightarrow> ((Some err, d), configClear dev s3)
           | (None, s3) \<Rightarrow>
               (case commitConfErr dev ''update resource junos_security_utm_policy'' s3 of
                  (Some err, s4) \<Rightarrow> ((Some err, d), configClear dev s4)
                | (None, s4) \<Rightarrow> resourceSecurityUtmPolicyRead dev d s4)))"

definition resourceSecurityUtmPolicyUpdate ::
  "device \<Rightarrow> utmData \<Rightarrow> session \<Rightarrow> (error option \<times> utmData) \<times> session" where
  "resourceSecurityUtmPolicyUpdate dev d s =
     (case startNewSession dev s of
        (Some err, s0) \<Rightarrow> ((Some err, d), s0)
      | (None, s0) \<Rightarrow>
          (case configLock dev s0 of
             (Some err, s1) \<Rightarrow> ((Some err, d), closeSession dev s1)
           | (None, s1) \<Rightarrow>
               (case utmUpdateBody dev d s1 of (r, s9) \<Rightarrow> (r, closeSession dev s9))))"

definition utmDeleteBody ::
  "device \<Rightarrow> utmData \<Rightarrow> session \<Rightarrow> (error option \<times> utmData) \<times> session" where
  "utmDeleteBody dev d s1 =
     (case delUtmPolicy dev (p_name d) s1 of
        (Some err, s2) \<Rightarrow> ((Some err, d), configClear dev s2)
      | (None, s2) \<Rightarrow>
          (case commitConfErr dev ''delete resource junos_security_utm_policy'' s2 of
             (Some err, s3) \<Rightarrow> ((Some err, d), configClear dev s3)
           | (None, s3) \<Rightarrow> ((None, d), s3)))"

definition resourceSecurityUtmPolicyDelete ::
  "device \<Rightarrow> utmData \<Rightarrow> session \<Rightarrow> (error option \<times> utmData) \<times> session" where
  "resourceSecurityUtmPolicyDelete dev d s =
     (case startNewSession dev s of
        (Some err, s0) \<Rightarrow> ((Some err, d), s0)
      | (None, s0) \<Rightarrow>
          (case configLock dev s0 of
             (Some err, s1) \<Rightarrow> ((Some err, d), closeSession dev s1)
           | (None, s1) \<Rightarrow>
               (case utmDeleteBody dev d s1 of (r, s9) \<Rightarrow> (r, closeSession dev s9))))"

section \<open>Notions of the specification\<close>

text \<open>
  The claim about \<open>setIntEsi\<close> in its own words: the five sub-fields of an \<open>esi\<close> block
  in their fixed order, each with the statement it stands for and whether it is
  populated; \<open>esiPopulated\<close> are the statements of the populated ones.
\<close>

definition esiCandidates :: "string \<Rightarrow> esiBlock \<Rightarrow> (bool \<times> string) list" where
  "esiCandidates setPrefix m =
     [(mode m \<noteq> [], setPrefix @ ''esi '' @ mode m),
      (auto_derive_lacp m, setPrefix @ ''esi auto-derive lacp''),
      (df_election_type m \<noteq> [], setPrefix @ ''esi df-election-type '' @ df_election_type m),
      (identifier m \<noteq> [], setPrefix @ ''esi '' @ identifier m),
      (source_bmac m \<noteq> [], setPrefix @ ''esi source-bmac '' @ source_bmac m)]"

definition esiPopulated :: "string \<Rightarrow> esiBlock \<Rightarrow> string list" where
  "esiPopulated setPrefix m = map snd (filter fst (esiCandidates setPrefix m))"

text \<open>
  The statements of a dump: the lines before the closing framing marker, without the
  lines that carry the opening marker.
\<close>

fun outputLines :: "string list \<Rightarrow> string list" where
  "outputLines [] = []"
| "outputLines (item # rest) =
     (if Contains item ''<configuration-output>'' then outputLines rest
      else if Contains item ''</configuration-output>'' then []
      else item # outputLines rest)"

text \<open>The index \<open>N\<close> of a name \<open>ae<N>\<close>, as the allocator reads it.\<close>

definition aeNumber :: "string \<Rightarrow> int option" where
  "aeNumber x = Atoi (TrimPrefix x ''ae'')"

text \<open>
  What the specification asks of a failure before the commit: the last call to the
  device before the session is closed is the discard of the pending edits, and no
  statement is left staged. \<open>hasError\<close> reads an error out of the diagnostics.
\<close>

definition discarded :: "session \<Rightarrow> bool" where
  "discarded s = (staged s = [] \<and> (case calls s of EvClear # rest \<Rightarrow> True | _ \<Rightarrow> False))"

definition closedAfterDiscard :: "session \<Rightarrow> bool" where
  "closedAfterDiscard s =
     (staged s = [] \<and> (case calls s of EvClose # EvClear # rest \<Rightarrow> True | _ \<Rightarrow> False))"

definition hasError :: "diag list \<Rightarrow> bool" where
  "hasError diags = list_ex (\<lambda>x. case x of DiagError e \<Rightarrow> True | DiagWarning e \<Rightarrow> False) diags"

text \<open>
  The claim about decode errors in its own words: a statement of a UTM policy dump
  projects the one numeric field (\<open>limit\<close>) with a text that is not an integer.
\<close>

definition utmNumericUnparsable :: "string \<Rightarrow> bool" where
  "utmNumericUnparsable item =
     (HasPrefix (TrimPrefix item setLineStart) ''traffic-options sessions-per-client limit '' \<and>
      Atoi (TrimPrefix (TrimPrefix item setLineStart)
              ''traffic-options sessions-per-client limit '') = None)"

section \<open>Concrete inputs of the examples\<close>

text \<open>
  A device on which every call succeeds and every query is answered from a fixed
  table, and a session that has not been used: the concrete inputs of the examples.
\<close>

definition quietDevice :: "string \<Rightarrow> (string \<Rightarrow> string) \<Rightarrow> device" where
  "quietDevice groupIntDel answer =
     \<lparr>junosGroupIntDel = groupIntDel,
      startNewSessionResult = (\<lambda>s. None),
      configLockResult = (\<lambda>s. None),
      commandResult = (\<lambda>s cmd. Inr (answer cmd)),
      commandXMLResult = (\<lambda>s cmd. Inr []),
      configSetResult = (\<lambda>s stmts. None),
      configSetPartial = (\<lambda>s stmts. 0),
      commitConfResult = (\<lambda>s logMessage. ([], None)),
      compatibilitySecurity = True,
      platformModel = ''srx300''\<rparr>"

definition freshSession :: session where
  "freshSession = \<lparr>staged = [], committed = 0, calls = []\<rparr>"

definition plainInterface :: "string \<Rightarrow> ifaceData" where
  "plainInterface interFace =
     \<lparr>d_name = interFace, d_no_disable_on_destroy = False, d_ae_lacp = [],
      d_ae_link_speed = [], d_ae_minimum_links = 0, d_description = [], d_esi = [],
      d_ether802_3ad = [], d_ether802_3ad_old = [], d_trunk = False, d_vlan_members = [],
      d_vlan_native = 0, d_vlan_tagging = False, d_id = []\<rparr>"

definition plainPolicy :: "string \<Rightarrow> utmData" where
  "plainPolicy policy =
     \<lparr>p_name = policy, p_anti_spam_smtp_profile = [], p_anti_virus = [],
      p_content_filtering = [], p_traffic_sessions_per_client = [],
      p_web_filtering_profile = [], p_id = []\<rparr>"

definition modeAndElection :: esiBlock where
  "modeAndElection =
     \<lparr>mode = ''all-active'', auto_derive_lacp = False, df_election_type = ''mod'',
      identifier = [], source_bmac = []\<rparr>"



text \<open>An ascending numeric sort of names \<open>ae<N>\<close>, one possible \<open>srt\<close>.\<close>

definition numericSort :: "string list \<Rightarrow> string list" where
  "numericSort xs = sort_key (\<lambda>x. case aeNumber x of None \<Rightarrow> 0 | Some i \<Rightarrow> i) xs"


definition soleChild :: "string \<Rightarrow> string" where
  "soleChild cmd =
     (if cmd = showInterfaces then ''set ge-0/0/1 ether-options 802.3ad ae3''
      else ''set ether-options 802.3ad ae3'')"

definition twoChildren :: "string \<Rightarrow> string" where
  "twoChildren cmd =
     (if cmd = showInterfaces
      then ''set ge-0/0/1 ether-options 802.3ad ae3'' @ [nl] @
           ''set ge-0/0/2 ether-options 802.3ad ae3''
      else ''set ether-options 802.3ad ae3'')"

section \<open>Encoding of nested blocks\<close>

text \<open>
  C9. When more than one sub-field of an \<open>esi\<close> block is populated, \<open>setIntEsi\<close> passes
  exactly one statement to \<open>configSet\<close>: the statement of the first populated sub-field
  in the order mode, auto_derive_lacp, df_election_type, identifier, source_bmac. The
  other populated sub-fields produce no statement, and the encoder itself reports
  nothing about them.
\<close>

theorem esi_first_populated_only:
  assumes "length (esiPopulated setPrefix m) > 1"
  shows "esiConfigSet setPrefix [Some m] [] = [hd (esiPopulated setPrefix m)]
         \<and> setIntEsi dev setPrefix [Some m] s = configSet dev [hd (esiPopulated setPrefix m)] s
         \<and> length (esiConfigSet setPrefix [Some m] []) < length (esiPopulated setPrefix m)"
  using assms by (simp add: setIntEsi_def esiPopulated_def esiCandidates_def split: if_splits)

theorem esi_first_populated_only_witness:
  "esiConfigSet ''set interfaces ge-0/0/1 '' [Some modeAndElection] []
     = [''set interfaces ge-0/0/1 esi all-active'']
   \<and> length (esiPopulated ''set interfaces ge-0/0/1 '' modeAndElection) = 2"
  using esi_first_populated_only [of "''set interfaces ge-0/0/1 ''" modeAndElection]
  by (simp add: esiPopulated_def esiCandidates_def modeAndElection_def)

lemma profileLoop_None:
  "None \<in> set vs \<Longrightarrow> profileLoop pfx emptyMsg vs acc = Inl (Errorf emptyMsg)"
  by (induction vs arbitrary: acc) (auto split: option.splits)

lemma profileLoop_result:
  "profileLoop pfx emptyMsg vs acc = Inl err \<Longrightarrow> err = Errorf emptyMsg"
  by (induction vs arbitrary: acc) (auto split: option.splits)

lemma sessionsLoop_None:
  "None \<in> set vs \<Longrightarrow>
   sessionsLoop setPrefix vs acc = Inl (Errorf ''traffic_sessions_per_client block is empty'')"
  by (induction vs arbitrary: acc) (auto split: option.splits)

lemma utmConfigSet_None:
  assumes "None \<in> set (p_anti_virus d) \<or> None \<in> set (p_content_filtering d)
           \<or> None \<in> set (p_traffic_sessions_per_client d)"
  shows "\<exists>msg. utmConfigSet d = Inl (Errorf msg)
           \<and> msg \<in> {''anti_virus block is empty'', ''content_filtering block is empty'',
                     ''traffic_sessions_per_client block is empty''}"
proof -
  define setPrefix where
    "setPrefix = ''set security utm utm-policy '' @ [dq] @ p_name d @ [dq] @ '' ''"
  define c1 where
    "c1 = (if p_anti_spam_smtp_profile d \<noteq> []
           then [setPrefix @ ''anti-spam smtp-profile '' @ [dq] @ p_anti_spam_smtp_profile d @ [dq]]
           else [])"
  define r1 where
    "r1 = profileLoop (setPrefix @ ''anti-virus '') ''anti_virus block is empty''
            (p_anti_virus d) c1"
  have u: "utmConfigSet d =
     (case r1 of
        Inl err \<Rightarrow> Inl err
      | Inr configSet2 \<Rightarrow>
          (case profileLoop (setPrefix @ ''content-filtering '')
                  ''content_filtering block is empty'' (p_content_filtering d) configSet2 of
             Inl err \<Rightarrow> Inl err
           | Inr configSet3 \<Rightarrow>
               (case sessionsLoop setPrefix (p_traffic_sessions_per_client d) configSet3 of
                  Inl err \<Rightarrow> Inl err
                | Inr configSet4 \<Rightarrow>
                    Inr (configSet4
                         @ (if p_web_filtering_profile d \<noteq> []
                            then [setPrefix @ ''web-filtering http-profile '' @ [dq] @
                                  p_web_filtering_profile d @ [dq]]
                            else [])))))"
    unfolding utmConfigSet_def Let_def r1_def c1_def setPrefix_def by (rule refl)
  show ?thesis
  proof (cases r1)
    case (Inl err)
    then have "err = Errorf ''anti_virus block is empty''"
      unfolding r1_def by (rule profileLoop_result)
    with Inl u show ?thesis by simp
  next
    case (Inr configSet2)
    then have nav: "None \<notin> set (p_anti_virus d)"
      unfolding r1_def using profileLoop_None by fastforce
    define r2 where
      "r2 = profileLoop (setPrefix @ ''content-filtering '')
              ''content_filtering block is empty'' (p_content_filtering d) configSet2"
    show ?thesis
    proof (cases r2)
      case (Inl err)
      then have "err = Errorf ''content_filtering block is empty''"
        unfolding r2_def by (rule profileLoop_result)
      with Inl Inr u show ?thesis by (simp add: r2_def)
    next
      case inr2: (Inr configSet3)
      then have ncf: "None \<notin> set (p_content_filtering d)"
        unfolding r2_def using profileLoop_None by fastforce
      from assms nav ncf have "None \<in> set (p_traffic_sessions_per_client d)" by blast
      then have "sessionsLoop setPrefix (p_traffic_sessions_per_client d) configSet3
                 = Inl (Errorf ''traffic_sessions_per_client block is empty'')"
        by (rule sessionsLoop_None)
      with inr2 Inr u show ?thesis by (simp add: r2_def)
    qed
  qed
qed

text \<open>
  C6, as the code has it. A \<open>nil\<close> element of \<open>anti_virus\<close>, \<open>content_filtering\<close> or
  \<open>traffic_sessions_per_client\<close> makes \<open>setUtmPolicy\<close> fail with the ``block is empty''
  error of such a block, before any statement reaches the device (the session is
  unchanged). The
  \<open>esi\<close> encoder has no such check: a \<open>nil\<close> block is skipped and \<open>setIntEsi\<close> passes
  the empty statement list to \<open>configSet\<close>.
\<close>

theorem empty_block_rejected:
  "(None \<in> set (p_anti_virus d) \<or> None \<in> set (p_content_filtering d)
      \<or> None \<in> set (p_traffic_sessions_per_client d)
    \<longrightarrow> (\<exists>msg. setUtmPolicy dev d s = (Some (Errorf msg), s)
           \<and> msg \<in> {''anti_virus block is empty'', ''content_filtering block is empty'',
                     ''traffic_sessions_per_client block is empty''}))
   \<and> setIntEsi dev setPrefix [None] s = configSet dev [] s"
proof -
  have "setIntEsi dev setPrefix [None] s = configSet dev [] s"
    by (simp add: setIntEsi_def)
  moreover have "\<exists>msg. setUtmPolicy dev d s = (Some (Errorf msg), s)
           \<and> msg \<in> {''anti_virus block is empty'', ''content_filtering block is empty'',
                     ''traffic_sessions_per_client block is empty''}"
    if "None \<in> set (p_anti_virus d) \<or> None \<in> set (p_content_filtering d)
      \<or> None \<in> set (p_traffic_sessions_per_client d)"
  proof -
    from utmConfigSet_None [OF that] obtain msg where
      m: "utmConfigSet d = Inl (Errorf msg)"
         "msg \<in> {''anti_virus block is empty'', ''content_filtering block is empty'',
                  ''traffic_sessions_per_client block is empty''}" by blast
    from m(1) have "setUtmPolicy dev d s = (Some (Errorf msg), s)"
      by (simp add: setUtmPolicy_def)
    with m(2) show ?thesis by blast
  qed
  ultimately show ?thesis by blast
qed

theorem empty_block_rejected_witness:
  "setUtmPolicy (quietDevice [] (\<lambda>cmd. [])) ((plainPolicy ''pol'')\<lparr>p_anti_virus := [None]\<rparr>)
     freshSession
   = (Some (Errorf ''anti_virus block is empty''), freshSession)"
proof -
  have av: "utmConfigSet ((plainPolicy ''pol'')\<lparr>p_anti_virus := [None]\<rparr>)
              = Inl (Errorf ''anti_virus block is empty'')"
    by (simp add: utmConfigSet_def plainPolicy_def)
  from empty_block_rejected
    [of "(plainPolicy ''pol'')\<lparr>p_anti_virus := [None]\<rparr>" "quietDevice [] (\<lambda>cmd. [])"
        freshSession]
  show ?thesis by (simp add: setUtmPolicy_def av)
qed

text \<open>
  The claim as stated fails for the \<open>esi\<close> block: encoding \<open>esi = [nil]\<close> on a device
  that accepts every call returns no error.
\<close>

theorem esi_empty_block_counterexample:
  "fst (setIntEsi (quietDevice [] (\<lambda>cmd. [])) ''set interfaces ge-0/0/1 '' [None] freshSession)
     = None"
  by (simp add: setIntEsi_def configSet_def quietDevice_def freshSession_def)

section \<open>Deleting a physical interface\<close>

lemma containsUnitLoop_outputLines:
  "containsUnitLoop interFace lines =
     (if \<exists>item \<in> set (outputLines lines).
           HasPrefix item ''set unit'' \<and> \<not> Contains item ''ethernet-switching''
      then Some (Errorf (''interface '' @ interFace @ '' is used for other son unit interface''))
      else None)"
  by (induction lines) auto

text \<open>
  C10. When the dump of the interface holds a \<open>set unit\<close> statement without
  \<open>ethernet-switching\<close>, \<open>delInterfacePhysical\<close> returns the error ``interface ... is used
  for other son unit interface''; the session has made the one query and nothing
  else: no statement was staged.
\<close>

theorem delete_refused_for_son_unit:
  assumes "commandResult dev s (showInterface (d_name d)) = Inr intConfig"
    and "\<exists>item \<in> set (outputLines (Split intConfig)).
           HasPrefix item ''set unit'' \<and> \<not> Contains item ''ethernet-switching''"
  shows "delInterfacePhysical dev srt d s =
           (Some (Errorf (''interface '' @ d_name d @ '' is used for other son unit interface'')),
            s\<lparr>calls := EvCommand (showInterface (d_name d)) # calls s\<rparr>)"
  using assms
  by (simp add: delInterfacePhysical_def checkInterfacePhysicalContainsUnit_def command_def
        containsUnitLoop_outputLines)

theorem delete_refused_for_son_unit_witness:
  "delInterfacePhysical
     (quietDevice [] (\<lambda>cmd. ''set description up'' @ [nl] @ ''set unit 0 family inet''))
     (\<lambda>xs. xs) (plainInterface ''ge-0/0/1'') freshSession
   = (Some (Errorf ''interface ge-0/0/1 is used for other son unit interface''),
      freshSession\<lparr>calls := [EvCommand (showInterface ''ge-0/0/1'')]\<rparr>)"
proof -
  have h1: "commandResult
              (quietDevice [] (\<lambda>cmd. ''set description up'' @ [nl] @ ''set unit 0 family inet''))
              freshSession (showInterface (d_name (plainInterface ''ge-0/0/1'')))
            = Inr (''set description up'' @ [nl] @ ''set unit 0 family inet'')"
    by (simp add: quietDevice_def)
  have h2: "\<exists>item \<in> set (outputLines
                (Split (''set description up'' @ [nl] @ ''set unit 0 family inet''))).
              HasPrefix item ''set unit'' \<and> \<not> Contains item ''ethernet-switching''"
    by code_simp
  from delete_refused_for_son_unit [OF h1 h2, of "\<lambda>xs. xs"]
  show ?thesis by (simp add: plainInterface_def freshSession_def)
qed

section \<open>Interface lifecycle classifier\<close>






lemma Split_no_nl: "\<forall>l\<in>set (Split s). nl \<notin> set l"
  by (induction s) (auto split: list.splits)

lemma intConfigLines_subset: "set (intConfigLines ls) \<subseteq> set ls"
  by (induction ls) auto



section \<open>Decimal text and machine integers\<close>

lemma natDigits_nonempty: "natDigits n \<noteq> []"
  by (subst natDigits.simps) simp

lemma of_char_digitChar: "n < 10 \<Longrightarrow> (of_char (digitChar n) :: nat) = 48 + n"
  by (simp add: digitChar_def)

lemma digitChar_zero: "n < 10 \<Longrightarrow> (digitChar n = CHR ''0'') = (n = 0)"
proof
  assume n: "n < 10" and e: "digitChar n = CHR ''0''"
  from e have "(of_char (digitChar n) :: nat) = of_char (CHR ''0'')" by simp
  with n show "n = 0" by (simp add: of_char_digitChar)
next
  assume "n = 0"
  moreover have "char_of (of_char (CHR ''0'') :: nat) = CHR ''0''" by (rule char_of_char)
  ultimately show "digitChar n = CHR ''0''" by (simp add: digitChar_def)
qed

lemma natDigits_zero: "(natDigits n = ''0'') = (n = 0)"
proof (cases "n < 10")
  case True
  then show ?thesis by (subst natDigits.simps) (simp add: digitChar_zero)
next
  case False
  then have "natDigits n = natDigits (n div 10) @ [digitChar (n mod 10)]"
    by (subst natDigits.simps) simp
  moreover have "natDigits (n div 10) \<noteq> []" by (rule natDigits_nonempty)
  ultimately have "length (natDigits n) \<ge> 2"
    by (cases "natDigits (n div 10)") auto
  with False show ?thesis by auto
qed

lemma Itoa_zero: "(Itoa k = ''0'') = (k = 0)"
  by (auto simp: Itoa_def natDigits_zero)

lemma goInt_id: "minInt \<le> x \<Longrightarrow> x \<le> maxInt \<Longrightarrow> goInt x = x"
proof -
  assume a: "minInt \<le> x" "x \<le> maxInt"
  then have "0 \<le> x + 9223372036854775808" "x + 9223372036854775808 < 18446744073709551616"
    by (simp_all add: minInt_def maxInt_def)
  then have "(x + 9223372036854775808) mod 18446744073709551616 = x + 9223372036854775808"
    by (rule mod_pos_pos_trivial)
  then show ?thesis by (simp add: goInt_def)
qed


section \<open>Aggregated-interface allocator\<close>

lemma Fields_head_nonspace: "\<not> isSpace c \<Longrightarrow> Fields (c # cs) \<noteq> []"
  by (cases cs) (auto split: list.splits)

lemma Fields_nonempty: "\<exists>c\<in>set s. \<not> isSpace c \<Longrightarrow> Fields s \<noteq> []"
proof (induction s)
  case Nil
  then show ?case by simp
next
  case (Cons a s)
  show ?case
  proof (cases "isSpace a")
    case True
    with Cons show ?thesis by auto
  next
    case False
    then show ?thesis by (rule Fields_head_nonspace)
  qed
qed

lemma digit_not_space: "isDigit c \<Longrightarrow> \<not> isSpace c"
  by (auto simp: isDigit_def isSpace_def)

lemma child_has_word: "regexpAEchild line \<Longrightarrow> Fields line \<noteq> []"
proof -
  assume "regexpAEchild line"
  then have ne: "takeWhile isDigit (rev line) \<noteq> []" by (simp add: regexpAEchild_def)
  then obtain c cs where r: "rev line = c # cs" by (cases "rev line") auto
  with ne have "isDigit c" by (auto split: if_splits)
  moreover from r have "c \<in> set line" by (metis list.set_intros(1) set_rev)
  ultimately show ?thesis using Fields_nonempty digit_not_space by blast
qed

lemma parent_has_two_words:
  assumes "regexpAEparent line"
  shows "\<exists>w0 w1 ws. Fields line = w0 # w1 # ws"
proof -
  from assms have "prefix ''set ae'' line" by (simp add: regexpAEparent_def)
  then obtain r where l: "line = ''set ae'' @ r" by (auto simp: prefix_def)
  have "Fields (''ae'' @ r) \<noteq> []"
    using Fields_head_nonspace [of "CHR ''a''" "CHR ''e'' # r"] by (simp add: isSpace_def)
  then obtain w1 ws where f: "Fields (CHR ''a'' # CHR ''e'' # r) = w1 # ws"
    by (cases "Fields (CHR ''a'' # CHR ''e'' # r)") auto
  have "Fields line = ''set'' # Fields (CHR ''a'' # CHR ''e'' # r)"
    unfolding l by (simp add: isSpace_def f)
  with f show ?thesis by simp
qed

text \<open>
  The scan of the allocator never panics: a line that matches the child pattern has a
  last word, and a line that matches the parent pattern has a second word.
\<close>

theorem scan_never_panics: "\<exists>found. scanAE oldAE interFace lines acc = Inr found"
proof (induction lines arbitrary: acc)
  case Nil
  then show ?case by simp
next
  case (Cons line rest)
  show ?case
  proof (cases "regexpAEchild line")
    case True
    then obtain w ws where "Fields line = w # ws"
      using child_has_word by (cases "Fields line") auto
    with True Cons show ?thesis by auto
  next
    case nc: False
    show ?thesis
    proof (cases "regexpAEparent line")
      case True
      then obtain w0 w1 ws where "Fields line = w0 # w1 # ws"
        using parent_has_two_words by blast
      with nc True Cons show ?thesis by auto
    next
      case False
      with nc Cons show ?thesis by simp
    qed
  qed
qed






lemma command_effect:
  "command dev cmd s = (r, s1) \<Longrightarrow> staged s1 = staged s \<and> committed s1 = committed s"
  by (auto simp: command_def)

lemma lastChild_effect:
  "interfaceAggregatedLastChild dev ae interFace s = (r, s1) \<Longrightarrow>
   staged s1 = staged s \<and> committed s1 = committed s"
  by (auto simp: interfaceAggregatedLastChild_def command_def split: sum.splits)

lemma listAEFoundOf_effect:
  "listAEFoundOf dev oldAE interFace s = (r, s2) \<Longrightarrow>
   staged s2 = staged s \<and> committed s2 = committed s"
  by (auto simp: listAEFoundOf_def interfaceAggregatedLastChild_def command_def
           split: sum.splits)

lemma countSearchMax_effect:
  "interfaceAggregatedCountSearchMax dev srt newAE oldAE interFace s = (r, s2) \<Longrightarrow>
   staged s2 = staged s \<and> committed s2 = committed s"
  by (auto simp: interfaceAggregatedCountSearchMax_def
           split: option.splits sum.splits prod.splits dest: listAEFoundOf_effect)

lemma countSearchMax_Inr:
  assumes "interfaceAggregatedCountSearchMax dev srt newAE oldAE interFace s = (Inr c, s2)"
  shows "\<exists>n found. Atoi (TrimPrefix newAE ''ae'') = Some n
            \<and> listAEFoundOf dev oldAE interFace s = (Inr found, s2)
            \<and> aggregatedCountOf srt n found = Inr c"
  using assms
  by (auto simp: interfaceAggregatedCountSearchMax_def
           split: option.splits sum.splits prod.splits)

lemma configSet_None:
  "configSet dev stmts s = (None, s1) \<Longrightarrow>
   s1 = s\<lparr>staged := staged s @ stmts, calls := EvSet stmts # calls s\<rparr>"
  by (auto simp: configSet_def split: option.splits)

lemma containsUnit_effect:
  "checkInterfacePhysicalContainsUnit dev interFace s = (r, s1) \<Longrightarrow>
   s1 = s\<lparr>calls := EvCommand (showInterface interFace) # calls s\<rparr>"
  by (auto simp: checkInterfacePhysicalContainsUnit_def command_def split: sum.splits)

lemma atoi_minus_one: "Atoi (TrimPrefix ''ae-1'' ''ae'') = Some (- 1)"
  by code_simp

lemma count_of_empty: "aggregatedCountOf srt (- 1) [] = Inr ''0''"
proof -
  have "Itoa (goInt (- 1 + 1)) = ''0''" by (simp add: Itoa_zero goInt_def)
  then show ?thesis by (simp add: aggregatedCountOf_def)
qed

lemma sorted_last:
  assumes "found \<noteq> []" "mset (srt found) = mset found"
  shows "srt found ! (length found - 1) = last (srt found) \<and> last (srt found) \<in> set found"
proof -
  from assms(2) have l: "length (srt found) = length found" by (metis size_mset)
  from assms(2) have s: "set (srt found) = set found" by (metis set_mset_mset)
  from l assms(1) have ne: "srt found \<noteq> []" by auto
  from ne l have "srt found ! (length found - 1) = last (srt found)"
    by (simp add: last_conv_nth)
  moreover from ne s have "last (srt found) \<in> set found" using last_in_set by blast
  ultimately show ?thesis by simp
qed

lemma count_of_nonempty:
  assumes "found \<noteq> []" "mset (srt found) = mset found"
    and "\<forall>x\<in>set found. \<exists>i. aeNumber x = Some i \<and> 0 \<le> i \<and> i < maxInt"
  shows "\<exists>c. aggregatedCountOf srt (- 1) found = Inr c \<and> c \<noteq> ''0''"
proof -
  from sorted_last [of found srt] assms(1,2)
  have idx: "srt found ! (length found - 1) = last (srt found)"
    and mem: "last (srt found) \<in> set found" by blast+
  from assms(3) mem obtain j where
    j: "aeNumber (last (srt found)) = Some j" "0 \<le> j" "j < maxInt" by blast
  have "goInt (j + 1) = j + 1"
    using j by (intro goInt_id) (simp_all add: minInt_def)
  moreover have "aggregatedCountOf srt (- 1) found = Inr (Itoa (goInt (j + 1)))"
    using assms(1) j idx by (simp add: aggregatedCountOf_def aeNumber_def)
  moreover have "Itoa (j + 1) \<noteq> ''0''" using j(2) by (simp add: Itoa_zero)
  ultimately show ?thesis by simp
qed

lemma configSet_None_staged:
  "configSet dev stmts s = (None, s1) \<Longrightarrow> staged s1 = staged s @ stmts"
  by (auto simp: configSet_def split: option.splits)

text \<open>
  C5, as the code has it. Whenever \<open>delInterfacePhysical\<close> succeeds, the statements
  it has staged are the deletion of the interface, followed, where the count is
  recomputed (the interface is an \<open>ae\<close> parent, or a child that was the last of its
  parent), by one statement for the device count: the deletion of the setting when the
  computed count is \<open>0\<close>, the setting of the computed count otherwise. A child whose
  parent keeps another child, and an interface with no binding, stage the deletion of
  the interface alone. The statement that sets the count to 0 is never staged. The
  computed count is \<open>0\<close> when the list of references is empty, and differs from \<open>0\<close>
  when the list is not empty, its names carry indices from 0 up and the sort keeps its
  elements.
\<close>

theorem device_count_on_delete:
  assumes ok: "delInterfacePhysical dev srt d s = (None, s')"
  shows "(HasPrefix (d_name d) ''ae'' \<longrightarrow>
            (\<exists>found c sa sb.
                listAEFoundOf dev (d_name d) (d_name d) sa = (Inr found, sb)
              \<and> aggregatedCountOf srt (- 1) found = Inr c
              \<and> staged s' = staged s @
                   [''delete interfaces '' @ d_name d,
                    if c = ''0'' then deviceCountDelete else deviceCountSet @ c]))
       \<and> (\<not> HasPrefix (d_name d) ''ae'' \<and> d_ether802_3ad d \<noteq> [] \<longrightarrow>
            (\<exists>lastAEchild sa sb.
                interfaceAggregatedLastChild dev (d_ether802_3ad d) (d_name d) sa
                  = (Inr lastAEchild, sb)
              \<and> (if lastAEchild then
                    (\<exists>found c sc.
                        listAEFoundOf dev (d_ether802_3ad d) (d_name d) sb = (Inr found, sc)
                      \<and> aggregatedCountOf srt (- 1) found = Inr c
                      \<and> staged s' = staged s @
                           [''delete interfaces '' @ d_name d,
                            if c = ''0'' then deviceCountDelete else deviceCountSet @ c])
                  else staged s' = staged s @ [''delete interfaces '' @ d_name d])))
       \<and> (\<not> HasPrefix (d_name d) ''ae'' \<and> d_ether802_3ad d = [] \<longrightarrow>
            staged s' = staged s @ [''delete interfaces '' @ d_name d])
       \<and> deviceCountSet @ ''0'' \<notin> set (drop (length (staged s)) (staged s'))
       \<and> aggregatedCountOf srt (- 1) [] = Inr ''0''
       \<and> (refs \<noteq> [] \<and> mset (srt refs) = mset refs
            \<and> (\<forall>x\<in>set refs. \<exists>i. aeNumber x = Some i \<and> 0 \<le> i \<and> i < maxInt)
          \<longrightarrow> (\<exists>c. aggregatedCountOf srt (- 1) refs = Inr c \<and> c \<noteq> ''0''))"
proof -
  define del where "del = ''delete interfaces '' @ d_name d"
  obtain r1 s1 where cu: "checkInterfacePhysicalContainsUnit dev (d_name d) s = (r1, s1)"
    by (cases "checkInterfacePhysicalContainsUnit dev (d_name d) s") auto
  have r1: "r1 = None" using ok cu by (auto simp: delInterfacePhysical_def split: option.splits)
  have s1: "staged s1 = staged s" using containsUnit_effect [OF cu] by simp
  obtain r2 s2 where cs: "configSet dev [del] s1 = (r2, s2)"
    by (cases "configSet dev [del] s1") auto
  have r2: "r2 = None"
    using ok cu r1 cs by (auto simp: delInterfacePhysical_def del_def split: option.splits)
  have s2: "staged s2 = staged s @ [del]"
    using configSet_None [of dev "[del]" s1 s2] cs r2 s1 by simp
  have rest: "(if HasPrefix (d_name d) ''ae'' then
                  (case interfaceAggregatedCountSearchMax dev srt ''ae-1'' (d_name d)
                          (d_name d) s2 of
                     (Inl err, s3) \<Rightarrow> (Some err, s3)
                   | (Inr aggregatedCount, s3) \<Rightarrow>
                       (if aggregatedCount = ''0'' then configSet dev [deviceCountDelete] s3
                        else configSet dev [deviceCountSet @ aggregatedCount] s3))
                else if d_ether802_3ad d \<noteq> [] then
                  (case interfaceAggregatedLastChild dev (d_ether802_3ad d) (d_name d) s2 of
                     (Inl err, s3) \<Rightarrow> (Some err, s3)
                   | (Inr lastAEchild, s3) \<Rightarrow>
                       (if lastAEchild then
                          (case interfaceAggregatedCountSearchMax dev srt ''ae-1''
                                  (d_ether802_3ad d) (d_name d) s3 of
                             (Inl err, s4) \<Rightarrow> (Some err, s4)
                           | (Inr aggregatedCount, s4) \<Rightarrow>
                               (if aggregatedCount = ''0''
                                then configSet dev [deviceCountDelete] s4
                                else configSet dev [deviceCountSet @ aggregatedCount] s4))
                        else (None, s3)))
                else (None, s2)) = (None, s')"
    using ok cu r1 cs r2 by (simp add: delInterfacePhysical_def del_def)
  have emit: "\<exists>found. listAEFoundOf dev oldAE (d_name d) sa = (Inr found, sb)
              \<and> aggregatedCountOf srt (- 1) found = Inr c
              \<and> staged s' = staged sa @
                   [if c = ''0'' then deviceCountDelete else deviceCountSet @ c]"
    if cm: "interfaceAggregatedCountSearchMax dev srt ''ae-1'' oldAE (d_name d) sa = (Inr c, sb)"
      and fin: "(if c = ''0'' then configSet dev [deviceCountDelete] sb
                 else configSet dev [deviceCountSet @ c] sb) = (None, s')"
    for oldAE sa sb c
  proof -
    from countSearchMax_Inr [OF cm] atoi_minus_one obtain found where
      f: "listAEFoundOf dev oldAE (d_name d) sa = (Inr found, sb)"
         "aggregatedCountOf srt (- 1) found = Inr c" by auto
    have sb: "staged sb = staged sa" using countSearchMax_effect [OF cm] by simp
    have "staged s' = staged sb @ [if c = ''0'' then deviceCountDelete else deviceCountSet @ c]"
      using fin by (auto split: if_splits dest: configSet_None_staged)
    with f sb show ?thesis by simp
  qed
  have ae: "\<exists>found c sa sb.
                listAEFoundOf dev (d_name d) (d_name d) sa = (Inr found, sb)
              \<and> aggregatedCountOf srt (- 1) found = Inr c
              \<and> staged s' = staged s @
                   [del, if c = ''0'' then deviceCountDelete else deviceCountSet @ c]"
    if p: "HasPrefix (d_name d) ''ae''"
  proof -
    from rest p obtain c s3 where
      cm: "interfaceAggregatedCountSearchMax dev srt ''ae-1'' (d_name d) (d_name d) s2
             = (Inr c, s3)"
      and fin: "(if c = ''0'' then configSet dev [deviceCountDelete] s3
                 else configSet dev [deviceCountSet @ c] s3) = (None, s')"
      by (auto split: prod.splits sum.splits)
    from emit [OF cm fin] obtain found where
      f: "listAEFoundOf dev (d_name d) (d_name d) s2 = (Inr found, s3)"
         "aggregatedCountOf srt (- 1) found = Inr c"
         "staged s' = staged s2 @ [if c = ''0'' then deviceCountDelete else deviceCountSet @ c]"
      by blast
    from f(3) s2 have
      "staged s' = staged s @ [del, if c = ''0'' then deviceCountDelete else deviceCountSet @ c]"
      by simp
    with f(1,2) show ?thesis by blast
  qed
  have child: "\<exists>lastAEchild sa sb.
                interfaceAggregatedLastChild dev (d_ether802_3ad d) (d_name d) sa
                  = (Inr lastAEchild, sb)
              \<and> (if lastAEchild then
                    (\<exists>found c sc.
                        listAEFoundOf dev (d_ether802_3ad d) (d_name d) sb = (Inr found, sc)
                      \<and> aggregatedCountOf srt (- 1) found = Inr c
                      \<and> staged s' = staged s @
                           [del, if c = ''0'' then deviceCountDelete else deviceCountSet @ c])
                  else staged s' = staged s @ [del])"
    if p: "\<not> HasPrefix (d_name d) ''ae''" "d_ether802_3ad d \<noteq> []"
  proof -
    obtain rl s3 where
      lc0: "interfaceAggregatedLastChild dev (d_ether802_3ad d) (d_name d) s2 = (rl, s3)"
      by (cases "interfaceAggregatedLastChild dev (d_ether802_3ad d) (d_name d) s2") auto
    from rest p lc0 have k0:
      "(case rl of
          Inl err \<Rightarrow> (Some err, s3)
        | Inr lastAEchild \<Rightarrow>
            (if lastAEchild then
               (case interfaceAggregatedCountSearchMax dev srt ''ae-1''
                       (d_ether802_3ad d) (d_name d) s3 of
                  (Inl err, s4) \<Rightarrow> (Some err, s4)
                | (Inr aggregatedCount, s4) \<Rightarrow>
                    (if aggregatedCount = ''0''
                     then configSet dev [deviceCountDelete] s4
                     else configSet dev [deviceCountSet @ aggregatedCount] s4))
             else (None, s3))) = (None, s')" by simp
    then obtain l where rl: "rl = Inr l" by (cases rl) auto
    from lc0 rl have
      lc: "interfaceAggregatedLastChild dev (d_ether802_3ad d) (d_name d) s2 = (Inr l, s3)"
      by simp
    from k0 rl have
      k: "(if l then
                 (case interfaceAggregatedCountSearchMax dev srt ''ae-1''
                         (d_ether802_3ad d) (d_name d) s3 of
                    (Inl err, s4) \<Rightarrow> (Some err, s4)
                  | (Inr aggregatedCount, s4) \<Rightarrow>
                      (if aggregatedCount = ''0''
                       then configSet dev [deviceCountDelete] s4
                       else configSet dev [deviceCountSet @ aggregatedCount] s4))
               else (None, s3)) = (None, s')" by simp
    have s3: "staged s3 = staged s @ [del]" using lastChild_effect [OF lc] s2 by simp
    show ?thesis
    proof (cases l)
      case False
      with k s3 have "staged s' = staged s @ [del]" by simp
      with False have
        "if l then
           (\<exists>found c sc.
               listAEFoundOf dev (d_ether802_3ad d) (d_name d) s3 = (Inr found, sc)
             \<and> aggregatedCountOf srt (- 1) found = Inr c
             \<and> staged s' = staged s @
                  [del, if c = ''0'' then deviceCountDelete else deviceCountSet @ c])
         else staged s' = staged s @ [del]" by simp
      with lc show ?thesis by blast
    next
      case True
      with k obtain c s4 where
        cm: "interfaceAggregatedCountSearchMax dev srt ''ae-1'' (d_ether802_3ad d) (d_name d) s3
               = (Inr c, s4)"
        and fin: "(if c = ''0'' then configSet dev [deviceCountDelete] s4
                   else configSet dev [deviceCountSet @ c] s4) = (None, s')"
        by (auto split: prod.splits sum.splits)
      from emit [OF cm fin] obtain found where
        f: "listAEFoundOf dev (d_ether802_3ad d) (d_name d) s3 = (Inr found, s4)"
           "aggregatedCountOf srt (- 1) found = Inr c"
           "staged s' = staged s3 @ [if c = ''0'' then deviceCountDelete else deviceCountSet @ c]"
        by blast
      from f(3) s3 have
        "staged s' = staged s @ [del, if c = ''0'' then deviceCountDelete else deviceCountSet @ c]"
        by simp
      with f(1,2) have
        "\<exists>found c sc.
               listAEFoundOf dev (d_ether802_3ad d) (d_name d) s3 = (Inr found, sc)
             \<and> aggregatedCountOf srt (- 1) found = Inr c
             \<and> staged s' = staged s @
                  [del, if c = ''0'' then deviceCountDelete else deviceCountSet @ c]" by blast
      with True have
        "if l then
           (\<exists>found c sc.
               listAEFoundOf dev (d_ether802_3ad d) (d_name d) s3 = (Inr found, sc)
             \<and> aggregatedCountOf srt (- 1) found = Inr c
             \<and> staged s' = staged s @
                  [del, if c = ''0'' then deviceCountDelete else deviceCountSet @ c])
         else staged s' = staged s @ [del]" by simp
      with lc show ?thesis by blast
    qed
  qed
  have plain: "staged s' = staged s @ [del]"
    if p: "\<not> HasPrefix (d_name d) ''ae''" "d_ether802_3ad d = []"
    using rest p s2 by simp
  have d1: "deviceCountSet @ ''0'' \<noteq> del"
    by (simp add: del_def deviceCountSet_def)
  have d2: "deviceCountSet @ ''0'' \<noteq> deviceCountDelete"
    by (simp add: deviceCountDelete_def deviceCountSet_def)
  have d3: "deviceCountSet @ ''0'' \<noteq>
            (if c = ''0'' then deviceCountDelete else deviceCountSet @ c)" for c
    using d2 by (cases "c = ''0''") auto
  have never: "deviceCountSet @ ''0'' \<notin> set (drop (length (staged s)) (staged s'))"
  proof (cases "HasPrefix (d_name d) ''ae''")
    case True
    from ae [OF True] obtain c where
      "staged s' = staged s @ [del, if c = ''0'' then deviceCountDelete else deviceCountSet @ c]"
      by blast
    then show ?thesis using d1 d3 by auto
  next
    case False
    show ?thesis
    proof (cases "d_ether802_3ad d = []")
      case True
      from plain [OF False True] show ?thesis using d1 by simp
    next
      case ne: False
      from child [OF False ne] have
        "staged s' = staged s @ [del] \<or>
         (\<exists>c. staged s' = staged s @
                 [del, if c = ''0'' then deviceCountDelete else deviceCountSet @ c])"
        by (metis (full_types))
      then show ?thesis using d1 d3 by auto
    qed
  qed
  show ?thesis
    using ae child plain never count_of_empty [of srt] count_of_nonempty [of refs srt]
    unfolding del_def by blast
qed

theorem device_count_on_delete_witness:
  "fst (delInterfacePhysical (quietDevice [] soleChild) numericSort
          ((plainInterface ''ge-0/0/1'')\<lparr>d_ether802_3ad := ''ae3''\<rparr>) freshSession) = None
   \<and> staged (snd (delInterfacePhysical (quietDevice [] soleChild) numericSort
          ((plainInterface ''ge-0/0/1'')\<lparr>d_ether802_3ad := ''ae3''\<rparr>) freshSession))
       = [''delete interfaces ge-0/0/1'',
          ''delete chassis aggregated-devices ethernet device-count'']"
proof -
  have f: "fst (delInterfacePhysical (quietDevice [] soleChild) numericSort
          ((plainInterface ''ge-0/0/1'')\<lparr>d_ether802_3ad := ''ae3''\<rparr>) freshSession) = None"
    by code_simp
  have st: "staged (snd (delInterfacePhysical (quietDevice [] soleChild) numericSort
          ((plainInterface ''ge-0/0/1'')\<lparr>d_ether802_3ad := ''ae3''\<rparr>) freshSession))
       = [''delete interfaces ge-0/0/1'',
          ''delete chassis aggregated-devices ethernet device-count'']"
    by code_simp
  from f have ok: "delInterfacePhysical (quietDevice [] soleChild) numericSort
          ((plainInterface ''ge-0/0/1'')\<lparr>d_ether802_3ad := ''ae3''\<rparr>) freshSession
        = (None, snd (delInterfacePhysical (quietDevice [] soleChild) numericSort
          ((plainInterface ''ge-0/0/1'')\<lparr>d_ether802_3ad := ''ae3''\<rparr>) freshSession))"
    by (metis prod.collapse)
  from device_count_on_delete [OF ok] f st show ?thesis by simp
qed

text \<open>
  The claim as stated fails for a child that is not the last of its parent: \<open>ae3\<close>
  stays referenced by \<open>ge-0/0/2\<close>, the list of references is not empty, and the delete
  of \<open>ge-0/0/1\<close> stages no statement for the device count.
\<close>

theorem child_not_last_counterexample:
  "fst (delInterfacePhysical (quietDevice [] twoChildren) numericSort
          ((plainInterface ''ge-0/0/1'')\<lparr>d_ether802_3ad := ''ae3''\<rparr>) freshSession) = None
   \<and> staged (snd (delInterfacePhysical (quietDevice [] twoChildren) numericSort
          ((plainInterface ''ge-0/0/1'')\<lparr>d_ether802_3ad := ''ae3''\<rparr>) freshSession))
       = [''delete interfaces ge-0/0/1'']
   \<and> fst (listAEFoundOf (quietDevice [] twoChildren) ''ae3'' ''ge-0/0/1'' freshSession)
       = Inr [''ae3'']"
  by code_simp

text \<open>
  When the two queries of the allocator succeed, it always gets a list of references.
\<close>

lemma listAEFoundOf_succeeds:
  assumes "commandResult dev s showInterfaces = Inr conf1"
    and "commandResult dev (s\<lparr>calls := EvCommand showInterfaces # calls s\<rparr>) showInterfaces
           = Inr conf2"
  shows "\<exists>found. listAEFoundOf dev oldAE interFace s =
           (Inr found,
            s\<lparr>calls := EvCommand showInterfaces # EvCommand showInterfaces # calls s\<rparr>)"
proof -
  from scan_never_panics [of oldAE interFace "Split conf1" "[]"] obtain scanned where
    "scanAE oldAE interFace (Split conf1) [] = Inr scanned" by blast
  with assms show ?thesis
    by (simp add: listAEFoundOf_def interfaceAggregatedLastChild_def command_def)
qed




section \<open>Transactions\<close>

lemma committed_command [simp]: "committed (snd (command dev cmd s)) = committed s"
  by (simp add: command_def)

lemma committed_commandXML [simp]: "committed (snd (commandXML dev cmd s)) = committed s"
  by (simp add: commandXML_def)

lemma committed_configSet [simp]: "committed (snd (configSet dev stmts s)) = committed s"
  by (simp add: configSet_def split: option.split)

lemma committed_configClear [simp]: "committed (configClear dev s) = committed s"
  by (simp add: configClear_def)

lemma committed_closeSession [simp]: "committed (closeSession dev s) = committed s"
  by (simp add: closeSession_def)

lemma committed_configLock [simp]: "committed (snd (configLock dev s)) = committed s"
  by (simp add: configLock_def)

lemma committed_startNewSession [simp]: "committed (snd (startNewSession dev s)) = committed s"
  by (simp add: startNewSession_def)

lemma committed_commitConf:
  "committed (snd (commitConf dev msg s)) =
     (if snd (fst (commitConf dev msg s)) = None then Suc (committed s) else committed s)"
  by (simp add: commitConf_def split: prod.split option.split)

lemma committed_commitConfErr:
  "committed (snd (commitConfErr dev msg s)) =
     (if fst (commitConfErr dev msg s) = None then Suc (committed s) else committed s)"
  by (simp add: commitConfErr_def commitConf_def split: prod.split option.split)

lemma committed_checkNCEmpty [simp]:
  "committed (snd (checkInterfacePhysicalNCEmpty dev interFace s)) = committed s"
  by (simp add: checkInterfacePhysicalNCEmpty_def split_beta split: sum.split)

lemma committed_checkInterfaceExists [simp]:
  "committed (snd (checkInterfaceExists dev interFace s)) = committed s"
  by (simp add: checkInterfaceExists_def split_beta split: sum.split)

lemma committed_readInterfacePhysical [simp]:
  "committed (snd (readInterfacePhysical dev interFace s)) = committed s"
  by (simp add: readInterfacePhysical_def split_beta split: sum.split)

lemma committed_addInterfacePhysicalNC [simp]:
  "committed (snd (addInterfacePhysicalNC dev interFace s)) = committed s"
  by (simp add: addInterfacePhysicalNC_def)

lemma committed_delInterfaceNC [simp]:
  "committed (snd (delInterfaceNC dev d s)) = committed s"
  by (simp add: delInterfaceNC_def Let_def)

lemma committed_delInterfacePhysicalOpts [simp]:
  "committed (snd (delInterfacePhysicalOpts dev d s)) = committed s"
  by (simp add: delInterfacePhysicalOpts_def Let_def)

lemma committed_setIntEsi [simp]:
  "committed (snd (setIntEsi dev setPrefix esiParams s)) = committed s"
  by (simp add: setIntEsi_def)

lemma committed_lastChild [simp]:
  "committed (snd (interfaceAggregatedLastChild dev ae interFace s)) = committed s"
  by (simp add: interfaceAggregatedLastChild_def split_beta split: sum.split)

lemma committed_containsUnit [simp]:
  "committed (snd (checkInterfacePhysicalContainsUnit dev interFace s)) = committed s"
  by (simp add: checkInterfacePhysicalContainsUnit_def split_beta split: sum.split)

lemma committed_checkUtmPolicysExists [simp]:
  "committed (snd (checkUtmPolicysExists dev policy s)) = committed s"
  by (simp add: checkUtmPolicysExists_def split_beta split: sum.split)

lemma committed_setUtmPolicy [simp]:
  "committed (snd (setUtmPolicy dev d s)) = committed s"
  by (simp add: setUtmPolicy_def split: sum.split)

lemma committed_delUtmPolicy [simp]:
  "committed (snd (delUtmPolicy dev policy s)) = committed s"
  by (simp add: delUtmPolicy_def)

lemma committed_readUtmPolicy [simp]:
  "committed (snd (readUtmPolicy dev policy s)) = committed s"
  by (simp add: readUtmPolicy_def split_beta split: sum.split)

lemma committed_listAEFoundOf [simp]:
  "committed (snd (listAEFoundOf dev oldAE interFace s)) = committed s"
  by (simp add: listAEFoundOf_def split_beta split: sum.split)

lemma committed_countSearchMax [simp]:
  "committed (snd (interfaceAggregatedCountSearchMax dev srt newAE oldAE interFace s))
     = committed s"
  by (simp add: interfaceAggregatedCountSearchMax_def split_beta split: sum.split option.split)

lemma committed_utmRead [simp]:
  "committed (snd (resourceSecurityUtmPolicyRead dev d s)) = committed s"
  by (simp add: resourceSecurityUtmPolicyRead_def split_beta split: sum.split option.split)

lemma committed_readW [simp]:
  "committed (snd (resourceInterfacePhysicalReadWJnprSess dev d s)) = committed s"
  by (simp add: resourceInterfacePhysicalReadWJnprSess_def split_beta
           split: sum.split option.split)

lemma committed_delInterfacePhysical [simp]:
  "committed (snd (delInterfacePhysical dev srt d s)) = committed s"
  by (simp add: delInterfacePhysical_def split_beta split: sum.split option.split)

lemma setInterfacePhysical_shape:
  "\<exists>setPrefix configSet4 rest.
     setInterfacePhysical dev srt d s =
       (if d_ae_lacp d \<noteq> [] \<and> \<not> HasPrefix (d_name d) ''ae''
        then (Some (Errorf ''ae_lacp invalid for this interface''), s)
        else if d_ae_link_speed d \<noteq> [] \<and> \<not> HasPrefix (d_name d) ''ae''
        then (Some (Errorf ''ae_link_speed invalid for this interface''), s)
        else if d_ae_minimum_links d > 0 \<and> \<not> HasPrefix (d_name d) ''ae''
        then (Some (Errorf ''ae_minimum_links invalid for this interface''), s)
        else
          (case setIntEsi dev setPrefix (d_esi d) s of
             (Some err, s1) \<Rightarrow> (Some err, s1)
           | (None, s1) \<Rightarrow>
               (case (if HasPrefix (d_name d) ''ae'' then
                        (case interfaceAggregatedCountSearchMax dev srt (d_name d) ''ae-1''
                                (d_name d) s1 of
                           (Inl err, s2) \<Rightarrow> (Inl err, s2)
                         | (Inr aggregatedCount, s2) \<Rightarrow>
                             (Inr (configSet4 @ [deviceCountSet @ aggregatedCount]), s2))
                      else if d_ether802_3ad d \<noteq> [] then
                        (case interfaceAggregatedCountSearchMax dev srt (d_ether802_3ad d)
                                (if d_ether802_3ad_old d \<noteq> d_ether802_3ad d \<and>
                                    d_ether802_3ad_old d \<noteq> []
                                 then d_ether802_3ad_old d else ''ae-1'') (d_name d) s1 of
                           (Inl err, s2) \<Rightarrow> (Inl err, s2)
                         | (Inr aggregatedCount, s2) \<Rightarrow>
                             (Inr (configSet4 @
                                   [setPrefix @ ''ether-options 802.3ad '' @ d_ether802_3ad d,
                                    setPrefix @ ''gigether-options 802.3ad '' @ d_ether802_3ad d,
                                    deviceCountSet @ aggregatedCount]), s2))
                      else (Inr configSet4, s1)) of
                  (Inl err, s2) \<Rightarrow> (Some err, s2)
                | (Inr configSet5, s2) \<Rightarrow> configSet dev (configSet5 @ rest) s2)))"
  unfolding setInterfacePhysical_def Let_def
  by (intro exI) (rule refl)

lemma committed_setInterfacePhysical [simp]:
  "committed (snd (setInterfacePhysical dev srt d s)) = committed s"
proof -
  from setInterfacePhysical_shape [of dev srt d s] obtain setPrefix configSet4 rest where
    eq: "setInterfacePhysical dev srt d s =
       (if d_ae_lacp d \<noteq> [] \<and> \<not> HasPrefix (d_name d) ''ae''
        then (Some (Errorf ''ae_lacp invalid for this interface''), s)
        else if d_ae_link_speed d \<noteq> [] \<and> \<not> HasPrefix (d_name d) ''ae''
        then (Some (Errorf ''ae_link_speed invalid for this interface''), s)
        else if d_ae_minimum_links d > 0 \<and> \<not> HasPrefix (d_name d) ''ae''
        then (Some (Errorf ''ae_minimum_links invalid for this interface''), s)
        else
          (case setIntEsi dev setPrefix (d_esi d) s of
             (Some err, s1) \<Rightarrow> (Some err, s1)
           | (None, s1) \<Rightarrow>
               (case (if HasPrefix (d_name d) ''ae'' then
                        (case interfaceAggregatedCountSearchMax dev srt (d_name d) ''ae-1''
                                (d_name d) s1 of
                           (Inl err, s2) \<Rightarrow> (Inl err, s2)
                         | (Inr aggregatedCount, s2) \<Rightarrow>
                             (Inr (configSet4 @ [deviceCountSet @ aggregatedCount]), s2))
                      else if d_ether802_3ad d \<noteq> [] then
                        (case interfaceAggregatedCountSearchMax dev srt (d_ether802_3ad d)
                                (if d_ether802_3ad_old d \<noteq> d_ether802_3ad d \<and>
                                    d_ether802_3ad_old d \<noteq> []
                                 then d_ether802_3ad_old d else ''ae-1'') (d_name d) s1 of
                           (Inl err, s2) \<Rightarrow> (Inl err, s2)
                         | (Inr aggregatedCount, s2) \<Rightarrow>
                             (Inr (configSet4 @
                                   [setPrefix @ ''ether-options 802.3ad '' @ d_ether802_3ad d,
                                    setPrefix @ ''gigether-options 802.3ad '' @ d_ether802_3ad d,
                                    deviceCountSet @ aggregatedCount]), s2))
                      else (Inr configSet4, s1)) of
                  (Inl err, s2) \<Rightarrow> (Some err, s2)
                | (Inr configSet5, s2) \<Rightarrow> configSet dev (configSet5 @ rest) s2)))"
    by blast
  show ?thesis
    unfolding eq by (simp add: split_beta split: sum.split option.split)
qed

lemma discarded_configClear [simp]: "discarded (configClear dev s)"
  by (simp add: discarded_def configClear_def)

lemma closed_after_discard [simp]: "discarded s \<Longrightarrow> closedAfterDiscard (closeSession dev s)"
  by (auto simp: discarded_def closedAfterDiscard_def closeSession_def split: list.splits event.splits)

lemma hasError_simps [simp]:
  "hasError [DiagError e]"
  "hasError (xs @ [DiagError e])"
  by (simp_all add: hasError_def)

lemma committed_createVerify [simp]:
  "committed (snd (interfaceCreateVerify dev d warns s)) = committed s"
  by (simp add: interfaceCreateVerify_def split_beta split: sum.split option.split)

lemma committed_deleteDisable:
  "committed s \<le> committed (snd (interfaceDeleteDisable dev d warns s))"
  by (simp add: interfaceDeleteDisable_def split_beta committed_commitConf
           split: sum.split option.split)

lemma committed_utmCreateVerify [simp]:
  "committed (snd (utmCreateVerify dev d s)) = committed s"
  by (simp add: utmCreateVerify_def split_beta split: sum.split option.split)

lemma createBody_outcome:
  "(discarded (snd (interfaceCreateBody dev srt d s1))
      \<and> hasError (fst (fst (interfaceCreateBody dev srt d s1))))
   \<or> committed s1 < committed (snd (interfaceCreateBody dev srt d s1))"
  by (simp add: interfaceCreateBody_def split_beta committed_commitConf
           split: sum.split option.split)

lemma updateBody_outcome:
  "(discarded (snd (interfaceUpdateBody dev srt d s1))
      \<and> hasError (fst (fst (interfaceUpdateBody dev srt d s1))))
   \<or> committed s1 < committed (snd (interfaceUpdateBody dev srt d s1))"
  by (simp add: interfaceUpdateBody_def split_beta committed_commitConf
           split: sum.split option.split)

lemma deleteBody_outcome:
  "(discarded (snd (interfaceDeleteBody dev srt d s1))
      \<and> hasError (fst (fst (interfaceDeleteBody dev srt d s1))))
   \<or> committed s1 < committed (snd (interfaceDeleteBody dev srt d s1))"
  using committed_deleteDisable
    [of "snd (commitConf dev ''delete resource junos_interface_physical''
               (snd (delInterfacePhysical dev srt d s1)))" dev d
        "fst (fst (commitConf dev ''delete resource junos_interface_physical''
               (snd (delInterfacePhysical dev srt d s1))))"]
  by (auto simp: interfaceDeleteBody_def split_beta committed_commitConf
           split: sum.split option.split if_split_asm)

lemma utmCreateBody_outcome:
  "(discarded (snd (utmCreateBody dev d s1)) \<and> fst (fst (utmCreateBody dev d s1)) \<noteq> None)
   \<or> committed s1 < committed (snd (utmCreateBody dev d s1))"
  by (simp add: utmCreateBody_def split_beta committed_commitConfErr
           split: sum.split option.split)

lemma utmUpdateBody_outcome:
  "(discarded (snd (utmUpdateBody dev d s1)) \<and> fst (fst (utmUpdateBody dev d s1)) \<noteq> None)
   \<or> committed s1 < committed (snd (utmUpdateBody dev d s1))"
  by (simp add: utmUpdateBody_def split_beta committed_commitConfErr
           split: sum.split option.split)

lemma utmDeleteBody_outcome:
  "(discarded (snd (utmDeleteBody dev d s1)) \<and> fst (fst (utmDeleteBody dev d s1)) \<noteq> None)
   \<or> committed s1 < committed (snd (utmDeleteBody dev d s1))"
  by (simp add: utmDeleteBody_def split_beta committed_commitConfErr
           split: sum.split option.split)

lemma create_discards:
  assumes "startNewSessionResult dev s = None"
    and "committed (snd (resourceInterfacePhysicalCreate dev srt d s)) = committed s"
  shows "closedAfterDiscard (snd (resourceInterfacePhysicalCreate dev srt d s))
         \<and> hasError (fst (fst (resourceInterfacePhysicalCreate dev srt d s)))"
  using assms createBody_outcome [of dev srt d "snd (configLock dev (snd (startNewSession dev s)))"]
  by (auto simp: resourceInterfacePhysicalCreate_def startNewSession_def split_beta)

lemma update_discards:
  assumes "startNewSessionResult dev s = None"
    and "committed (snd (resourceInterfacePhysicalUpdate dev srt d s)) = committed s"
  shows "closedAfterDiscard (snd (resourceInterfacePhysicalUpdate dev srt d s))
         \<and> hasError (fst (fst (resourceInterfacePhysicalUpdate dev srt d s)))"
  using assms updateBody_outcome [of dev srt d "snd (configLock dev (snd (startNewSession dev s)))"]
  by (auto simp: resourceInterfacePhysicalUpdate_def startNewSession_def split_beta)

lemma delete_discards:
  assumes "startNewSessionResult dev s = None"
    and "committed (snd (resourceInterfacePhysicalDelete dev srt d s)) = committed s"
  shows "closedAfterDiscard (snd (resourceInterfacePhysicalDelete dev srt d s))
         \<and> hasError (fst (fst (resourceInterfacePhysicalDelete dev srt d s)))"
  using assms deleteBody_outcome [of dev srt d "snd (configLock dev (snd (startNewSession dev s)))"]
  by (auto simp: resourceInterfacePhysicalDelete_def startNewSession_def split_beta)

lemma utm_create_discards:
  assumes "startNewSessionResult dev s = None" "compatibilitySecurity dev"
    and "configLockResult dev (snd (startNewSession dev s)) = None"
    and "committed (snd (resourceSecurityUtmPolicyCreate dev p s)) = committed s"
  shows "closedAfterDiscard (snd (resourceSecurityUtmPolicyCreate dev p s))
         \<and> fst (fst (resourceSecurityUtmPolicyCreate dev p s)) \<noteq> None"
  using assms utmCreateBody_outcome [of dev p "snd (configLock dev (snd (startNewSession dev s)))"]
  by (auto simp: resourceSecurityUtmPolicyCreate_def startNewSession_def configLock_def
        split_beta)

lemma utm_update_discards:
  assumes "startNewSessionResult dev s = None"
    and "configLockResult dev (snd (startNewSession dev s)) = None"
    and "committed (snd (resourceSecurityUtmPolicyUpdate dev p s)) = committed s"
  shows "closedAfterDiscard (snd (resourceSecurityUtmPolicyUpdate dev p s))
         \<and> fst (fst (resourceSecurityUtmPolicyUpdate dev p s)) \<noteq> None"
  using assms utmUpdateBody_outcome [of dev p "snd (configLock dev (snd (startNewSession dev s)))"]
  by (auto simp: resourceSecurityUtmPolicyUpdate_def startNewSession_def configLock_def
        split_beta)

lemma utm_delete_discards:
  assumes "startNewSessionResult dev s = None"
    and "configLockResult dev (snd (startNewSession dev s)) = None"
    and "committed (snd (resourceSecurityUtmPolicyDelete dev p s)) = committed s"
  shows "closedAfterDiscard (snd (resourceSecurityUtmPolicyDelete dev p s))
         \<and> fst (fst (resourceSecurityUtmPolicyDelete dev p s)) \<noteq> None"
  using assms utmDeleteBody_outcome [of dev p "snd (configLock dev (snd (startNewSession dev s)))"]
  by (auto simp: resourceSecurityUtmPolicyDelete_def startNewSession_def configLock_def
        split_beta)

text \<open>
  C8. For each of the six mutating operations, once the session is started (and, for
  the UTM policy, the device is compatible and the lock was obtained): if the operation
  returns without a commit having succeeded, then it returns an error, the last call
  to the device before the session is closed is \<open>configClear\<close>, and no statement is
  left staged. This covers the failed existence check, the conflict, the failed
  encoding, the failed \<open>configSet\<close> and the failed commit.
\<close>

theorem failure_before_commit_discards:
  "(startNewSessionResult dev s = None
      \<and> committed (snd (resourceInterfacePhysicalCreate dev srt d s)) = committed s
    \<longrightarrow> closedAfterDiscard (snd (resourceInterfacePhysicalCreate dev srt d s))
        \<and> hasError (fst (fst (resourceInterfacePhysicalCreate dev srt d s))))
   \<and> (startNewSessionResult dev s = None
      \<and> committed (snd (resourceInterfacePhysicalUpdate dev srt d s)) = committed s
    \<longrightarrow> closedAfterDiscard (snd (resourceInterfacePhysicalUpdate dev srt d s))
        \<and> hasError (fst (fst (resourceInterfacePhysicalUpdate dev srt d s))))
   \<and> (startNewSessionResult dev s = None
      \<and> committed (snd (resourceInterfacePhysicalDelete dev srt d s)) = committed s
    \<longrightarrow> closedAfterDiscard (snd (resourceInterfacePhysicalDelete dev srt d s))
        \<and> hasError (fst (fst (resourceInterfacePhysicalDelete dev srt d s))))
   \<and> (startNewSessionResult dev s = None \<and> compatibilitySecurity dev
      \<and> configLockResult dev (snd (startNewSession dev s)) = None
      \<and> committed (snd (resourceSecurityUtmPolicyCreate dev p s)) = committed s
    \<longrightarrow> closedAfterDiscard (snd (resourceSecurityUtmPolicyCreate dev p s))
        \<and> fst (fst (resourceSecurityUtmPolicyCreate dev p s)) \<noteq> None)
   \<and> (startNewSessionResult dev s = None
      \<and> configLockResult dev (snd (startNewSession dev s)) = None
      \<and> committed (snd (resourceSecurityUtmPolicyUpdate dev p s)) = committed s
    \<longrightarrow> closedAfterDiscard (snd (resourceSecurityUtmPolicyUpdate dev p s))
        \<and> fst (fst (resourceSecurityUtmPolicyUpdate dev p s)) \<noteq> None)
   \<and> (startNewSessionResult dev s = None
      \<and> configLockResult dev (snd (startNewSession dev s)) = None
      \<and> committed (snd (resourceSecurityUtmPolicyDelete dev p s)) = committed s
    \<longrightarrow> closedAfterDiscard (snd (resourceSecurityUtmPolicyDelete dev p s))
        \<and> fst (fst (resourceSecurityUtmPolicyDelete dev p s)) \<noteq> None)"
  using create_discards [of dev s srt d] update_discards [of dev s srt d]
    delete_discards [of dev s srt d] utm_create_discards [of dev s p]
    utm_update_discards [of dev s p] utm_delete_discards [of dev s p]
  by blast

theorem failure_before_commit_discards_witness:
  "closedAfterDiscard (snd (resourceSecurityUtmPolicyCreate (quietDevice [] (\<lambda>cmd. emptyWord))
       ((plainPolicy ''pol'')\<lparr>p_anti_virus := [None]\<rparr>) freshSession))
   \<and> fst (fst (resourceSecurityUtmPolicyCreate (quietDevice [] (\<lambda>cmd. emptyWord))
       ((plainPolicy ''pol'')\<lparr>p_anti_virus := [None]\<rparr>) freshSession))
       = Some (Errorf ''anti_virus block is empty'')
   \<and> closedAfterDiscard (snd (resourceInterfacePhysicalCreate
       (quietDevice [] (\<lambda>cmd. ''set description uplink'')) numericSort
       (plainInterface ''ge-0/0/1'') freshSession))
   \<and> fst (fst (resourceInterfacePhysicalCreate
       (quietDevice [] (\<lambda>cmd. ''set description uplink'')) numericSort
       (plainInterface ''ge-0/0/1'') freshSession))
       = [DiagError (Errorf ''interface ge-0/0/1 already configured'')]"
proof -
  have u1: "startNewSessionResult (quietDevice [] (\<lambda>cmd. emptyWord)) freshSession = None"
    and u2: "compatibilitySecurity (quietDevice [] (\<lambda>cmd. emptyWord))"
    and u3: "configLockResult (quietDevice [] (\<lambda>cmd. emptyWord))
               (snd (startNewSession (quietDevice [] (\<lambda>cmd. emptyWord)) freshSession)) = None"
    by (simp_all add: quietDevice_def)
  have u4: "committed (snd (resourceSecurityUtmPolicyCreate (quietDevice [] (\<lambda>cmd. emptyWord))
       ((plainPolicy ''pol'')\<lparr>p_anti_virus := [None]\<rparr>) freshSession)) = committed freshSession"
    by code_simp
  have u5: "fst (fst (resourceSecurityUtmPolicyCreate (quietDevice [] (\<lambda>cmd. emptyWord))
       ((plainPolicy ''pol'')\<lparr>p_anti_virus := [None]\<rparr>) freshSession))
       = Some (Errorf ''anti_virus block is empty'')"
    by code_simp
  have i1: "startNewSessionResult (quietDevice [] (\<lambda>cmd. ''set description uplink''))
              freshSession = None"
    by (simp add: quietDevice_def)
  have i2: "committed (snd (resourceInterfacePhysicalCreate
       (quietDevice [] (\<lambda>cmd. ''set description uplink'')) numericSort
       (plainInterface ''ge-0/0/1'') freshSession)) = committed freshSession"
    by code_simp
  have i3: "fst (fst (resourceInterfacePhysicalCreate
       (quietDevice [] (\<lambda>cmd. ''set description uplink'')) numericSort
       (plainInterface ''ge-0/0/1'') freshSession))
       = [DiagError (Errorf ''interface ge-0/0/1 already configured'')]"
    by code_simp
  from failure_before_commit_discards
    [of "quietDevice [] (\<lambda>cmd. emptyWord)" freshSession numericSort
        "plainInterface ''ge-0/0/1''" "(plainPolicy ''pol'')\<lparr>p_anti_virus := [None]\<rparr>"]
    u1 u2 u3 u4
  have a: "closedAfterDiscard (snd (resourceSecurityUtmPolicyCreate
       (quietDevice [] (\<lambda>cmd. emptyWord))
       ((plainPolicy ''pol'')\<lparr>p_anti_virus := [None]\<rparr>) freshSession))"
    by blast
  from failure_before_commit_discards
    [of "quietDevice [] (\<lambda>cmd. ''set description uplink'')" freshSession numericSort
        "plainInterface ''ge-0/0/1''" "plainPolicy ''pol''"]
    i1 i2
  have b: "closedAfterDiscard (snd (resourceInterfacePhysicalCreate
       (quietDevice [] (\<lambda>cmd. ''set description uplink'')) numericSort
       (plainInterface ''ge-0/0/1'') freshSession))"
    by blast
  from a b u5 i3 show ?thesis by simp
qed

section \<open>Round trip and decode errors\<close>

text \<open>
  C2 fails on the code. An interface whose \<open>esi\<close> block has \<open>mode = all-active\<close> and
  \<open>df_election_type = mod\<close> is encoded to the prefix statement and the one statement
  \<open>esi all-active\<close>, exactly as the same interface without \<open>df_election_type\<close> is;
  the dump of what was sent decodes to a block whose \<open>df_election_type\<close> is empty. The
  decoder and the schema read all five sub-fields into one block.
\<close>

theorem esi_round_trip_loses_field:
  "calls (snd (setInterfacePhysical (quietDevice [] (\<lambda>cmd. [])) numericSort
            ((plainInterface ''ge-0/0/1'')\<lparr>d_esi := [Some modeAndElection]\<rparr>) freshSession))
     = [EvSet [''set interfaces ge-0/0/1 ''], EvSet [''set interfaces ge-0/0/1 esi all-active'']]
   \<and> setInterfacePhysical (quietDevice [] (\<lambda>cmd. [])) numericSort
            ((plainInterface ''ge-0/0/1'')\<lparr>d_esi := [Some modeAndElection]\<rparr>) freshSession
     = setInterfacePhysical (quietDevice [] (\<lambda>cmd. [])) numericSort
            ((plainInterface ''ge-0/0/1'')
               \<lparr>d_esi := [Some (modeAndElection\<lparr>df_election_type := []\<rparr>)]\<rparr>) freshSession
   \<and> readInterfaceConfig ''set esi all-active''
     = Inr (zeroInterfaceOptions\<lparr>esi := [modeAndElection\<lparr>df_election_type := []\<rparr>]\<rparr>)
   \<and> df_election_type modeAndElection = ''mod''"
  by code_simp

text \<open>
  C7 fails on the code for the UTM policy: an unparsable \<open>limit\<close> makes
  \<open>readUtmPolicy\<close> return the bare error of \<open>strconv.Atoi\<close>, which carries the text
  \<open>abc\<close> and not the statement, while \<open>readInterfacePhysical\<close> wraps the same error
  with the statement it read.
\<close>

theorem utm_decode_error_omits_statement:
  "readUtmConfig ''pol'' ''set traffic-options sessions-per-client limit abc''
     = Inl (NumError ''abc'')
   \<and> readInterfaceConfig ''set native-vlan-id abc''
     = Inl (ErrorfW (''failed to convert value from '' @ [sq] @ ''native-vlan-id abc'' @ [sq]
                     @ '' to integer : '') (NumError ''abc''))"
  by code_simp

lemma limit_prefix_facts:
  assumes "HasPrefix t ''traffic-options sessions-per-client limit ''"
  shows "HasPrefix t ''traffic-options sessions-per-client ''"
    and "\<not> HasPrefix t ''anti-spam smtp-profile ''"
    and "\<not> HasPrefix t ''anti-virus ''"
    and "\<not> HasPrefix t ''content-filtering ''"
    and "\<not> HasPrefix t ''traffic-options sessions-per-client over-limit ''"
proof -
  from assms obtain r where t: "t = ''traffic-options sessions-per-client limit '' @ r"
    by (auto simp: HasPrefix_def prefix_def)
  show "HasPrefix t ''traffic-options sessions-per-client ''"
    and "\<not> HasPrefix t ''anti-spam smtp-profile ''"
    and "\<not> HasPrefix t ''anti-virus ''"
    and "\<not> HasPrefix t ''content-filtering ''"
    and "\<not> HasPrefix t ''traffic-options sessions-per-client over-limit ''"
    unfolding t HasPrefix_def by simp_all
qed

lemma readUtmLoop_step:
  assumes "\<not> Contains item ''<configuration-output>''"
    and "\<not> Contains item ''</configuration-output>''"
  shows "(utmNumericUnparsable item \<longrightarrow>
            readUtmLoop (item # rest) c =
              Inl (NumError (TrimPrefix (TrimPrefix item setLineStart)
                     ''traffic-options sessions-per-client limit '')))
       \<and> (\<not> utmNumericUnparsable item \<longrightarrow>
            (\<exists>c'. readUtmLoop (item # rest) c = readUtmLoop rest c'))"
proof (cases "HasPrefix (TrimPrefix item setLineStart)
                ''traffic-options sessions-per-client limit ''")
  case True
  note f = limit_prefix_facts [OF True]
  show ?thesis
  proof (cases "Atoi (TrimPrefix (TrimPrefix item setLineStart)
                  ''traffic-options sessions-per-client limit '')")
    case None
    with True f assms show ?thesis
      by (simp add: utmNumericUnparsable_def Let_def)
  next
    case (Some n)
    with True f assms show ?thesis
      by (auto simp: utmNumericUnparsable_def Let_def)
  qed
next
  case False
  with assms show ?thesis
    by (auto simp: utmNumericUnparsable_def Let_def)
qed

text \<open>
  The other parts of C7 hold for the UTM policy: the loop of \<open>readUtmPolicy\<close> returns
  an error exactly when a statement inside the framing markers projects \<open>limit\<close> with
  a text that \<open>strconv.Atoi\<close> rejects; every other statement, matched or not, is read
  without error.
\<close>

theorem utm_decode_error_iff:
  "(\<exists>e. readUtmLoop lines c = Inl e) =
     (\<exists>item\<in>set (outputLines lines). utmNumericUnparsable item)"
proof (induction lines arbitrary: c)
  case Nil
  then show ?case by simp
next
  case (Cons item rest)
  show ?case
  proof (cases "Contains item ''<configuration-output>''")
    case True
    with Cons show ?thesis by simp
  next
    case no: False
    show ?thesis
    proof (cases "Contains item ''</configuration-output>''")
      case True
      with no show ?thesis by simp
    next
      case nc: False
      from readUtmLoop_step [OF no nc, of rest c]
      show ?thesis
      proof (cases "utmNumericUnparsable item")
        case True
        with readUtmLoop_step [OF no nc, of rest c] no nc show ?thesis by simp
      next
        case False
        with readUtmLoop_step [OF no nc, of rest c] obtain c' where
          "readUtmLoop (item # rest) c = readUtmLoop rest c'" by blast
        with Cons.IH [of c'] False no nc show ?thesis by simp
      qed
    qed
  qed
qed

end
